theory Spec2Isabelle
  imports Complex_Main "HOL-Library.Monad_Syntax"
begin

section \<open>Parameters of the notebook\<close>

text \<open>
  Cell 7: \<^verbatim>\<open>orig_classes = 10 ; gate0_classes = 2\<close>.
\<close>

definition orig_classes :: nat where
  "orig_classes = 10"

definition gate0_classes :: nat where
  "gate0_classes = 2"

section \<open>Checkpoint directories: getNewestModel\<close>

text \<open>
  The part of the file system that \<^verbatim>\<open>getNewestModel\<close> reads. A directory is the list
  of its entry names in the order the operating system lists them; a path has a
  modification time (\<^verbatim>\<open>os.path.getmtime\<close>, seconds as a number) and, when it is a
  weight file that \<^verbatim>\<open>load_weights\<close> accepts, the weights stored in it. Weights are kept
  per layer name, the way Keras stores them.
\<close>

type_synonym weights = "string \<Rightarrow> real list"

record filesystem =
  listing :: "string \<Rightarrow> string list"
  getmtime :: "string \<Rightarrow> real"
  stored :: "string \<Rightarrow> weights option"

text \<open>
  \<^verbatim>\<open>os.path.join(dirname, name)\<close> for a relative \<^verbatim>\<open>name\<close>: a separator is put
  between the two parts unless the first is empty or already ends with one.
\<close>

definition os_path_join :: "string \<Rightarrow> string \<Rightarrow> string" where
  "os_path_join a b =
     (if a = [] \<or> last a = CHR ''/'' then a @ b else a @ ''/'' @ b)"

text \<open>
  A name is hidden when it starts with a dot. The pattern \<^verbatim>\<open>*\<close> of Python's
  \<^verbatim>\<open>glob\<close> never matches a hidden name.
\<close>

definition hidden :: "string \<Rightarrow> bool" where
  "hidden name = (case name of [] \<Rightarrow> False | c # _ \<Rightarrow> c = CHR ''.'')"

text \<open>
  \<^verbatim>\<open>glob(os.path.join(dirname, '*'))\<close>: the paths of the entries of \<^verbatim>\<open>dirname\<close>
  that are not hidden, files and subdirectories alike, in listing order. The directory
  names of the notebook are literal (no wildcard of their own). A directory that does not
  exist has no entries.
\<close>

definition glob_star :: "filesystem \<Rightarrow> string \<Rightarrow> string list" where
  "glob_star fs dirname =
     map (os_path_join dirname) (filter (\<lambda>name. \<not> hidden name) (listing fs dirname))"

text \<open>
  \<^verbatim>\<open>model.load_weights(path)\<close> on a model with the layers \<^verbatim>\<open>layers\<close>: every layer
  of the model takes the weights the file stores for it; the call raises (here
  \<open>None\<close>) when the path holds no weights the model can load.
\<close>

definition load_weights :: "filesystem \<Rightarrow> string list \<Rightarrow> weights \<Rightarrow> string \<Rightarrow> weights option" where
  "load_weights fs layers w path =
     (case stored fs path of
        None \<Rightarrow> None
      | Some saved \<Rightarrow> Some (\<lambda>l. if l \<in> set layers then saved l else w l))"

text \<open>
  Cell 10:
  \<^verbatim>\<open>
  def getNewestModel(model, dirname):
      from glob import glob
      target = os.path.join(dirname, '*')
      files = [(f, os.path.getmtime(f)) for f in glob(target)]
      if len(files) == 0:
          return model
      else:
          newestModel = sorted(files, key=lambda files: files[1])[-1]
          model.load_weights(newestModel[0])
          return model
  \<close>
  The model is its list of layers and the weights they hold. Python's \<^verbatim>\<open>sorted\<close> is
  stable and ascending, as \<open>sort_key\<close> is, and \<^verbatim>\<open>[-1]\<close> takes the last element of a
  list that is not empty here.
\<close>

definition getNewestModel :: "filesystem \<Rightarrow> string list \<Rightarrow> weights \<Rightarrow> string \<Rightarrow> weights option" where
  "getNewestModel fs layers model dirname =
     (let files = map (\<lambda>f. (f, getmtime fs f)) (glob_star fs dirname)
      in if length files = 0 then Some model
         else let newestModel = last (sort_key snd files)
              in load_weights fs layers model (fst newestModel))"

section \<open>Preparing the data sets\<close>

text \<open>
  Class labels are the numbers CIFAR-10 gives (\<^verbatim>\<open>uint8\<close> values, one per example).
  \<^verbatim>\<open>keras.utils.to_categorical(y, num_classes)\<close> with a positive \<^verbatim>\<open>num_classes\<close>
  builds one row of zeros per label and writes a one at the label's column; a label
  that is no column raises IndexError (here \<open>None\<close>).
\<close>

definition to_categorical :: "nat list \<Rightarrow> nat \<Rightarrow> real list list option" where
  "to_categorical y num_classes =
     (if list_all (\<lambda>v. v < num_classes) y
      then Some (map (\<lambda>v. map (\<lambda>j. if j = v then 1 else 0) [0..<num_classes]) y)
      else None)"

text \<open>
  Cell 27:
  \<^verbatim>\<open>
  y_trainG0 = np.array([0 if i in [0,1,8,9] else 1 for i in y_train])
  y_testG0 = np.array([0 if i in [0,1,8,9] else 1 for i in y_test])
  y_trainG0 = keras.utils.to_categorical(y_trainG0, 2)
  y_testG0  = keras.utils.to_categorical(y_testG0, 2)
  \<close>
\<close>

definition G0_labels :: "nat list \<Rightarrow> nat list" where
  "G0_labels y = map (\<lambda>i. if i \<in> set [0, 1, 8, 9] then 0 else 1) y"

definition y_trainG0 :: "nat list \<Rightarrow> real list list option" where
  "y_trainG0 y_train = to_categorical (G0_labels y_train) 2"

definition y_testG0 :: "nat list \<Rightarrow> real list list option" where
  "y_testG0 y_test = to_categorical (G0_labels y_test) 2"

text \<open>
  Cell 33:
  \<^verbatim>\<open>
  artTrain = [i for i in range(len(y_train)) if y_train[i] in [0,1,8,9]]
  natureTrain = [i for i in range(len(y_train)) if y_train[i] in [2,3,4,5,6,7]]
  artTest = [i for i in range(len(y_test)) if y_test[i] in [0,1,8,9]]
  natureTest = [i for i in range(len(y_test)) if y_test[i] in [2,3,4,5,6,7]]
  \<close>
\<close>

definition artTrain :: "nat list \<Rightarrow> nat list" where
  "artTrain y_train = filter (\<lambda>i. y_train ! i \<in> set [0, 1, 8, 9]) [0..<length y_train]"

definition natureTrain :: "nat list \<Rightarrow> nat list" where
  "natureTrain y_train = filter (\<lambda>i. y_train ! i \<in> set [2, 3, 4, 5, 6, 7]) [0..<length y_train]"

definition artTest :: "nat list \<Rightarrow> nat list" where
  "artTest y_test = filter (\<lambda>i. y_test ! i \<in> set [0, 1, 8, 9]) [0..<length y_test]"

definition natureTest :: "nat list \<Rightarrow> nat list" where
  "natureTest y_test = filter (\<lambda>i. y_test ! i \<in> set [2, 3, 4, 5, 6, 7]) [0..<length y_test]"

text \<open>
  Cells 34 and 42: \<^verbatim>\<open>x_train[artTrain]\<close>, \<^verbatim>\<open>y_train[artTrain]\<close> and the like select
  the rows at a list of positions; a position outside the array raises IndexError (here
  \<open>None\<close>).
\<close>

definition take_rows :: "'a list \<Rightarrow> nat list \<Rightarrow> 'a list option" where
  "take_rows a idx =
     (if list_all (\<lambda>i. i < length a) idx then Some (map (\<lambda>i. a ! i) idx) else None)"

section \<open>The networks\<close>

text \<open>
  Cell 9, the mixture parameters: batch size, epochs, the number of training and test
  examples to use, and the three flags that choose between the small and the large
  architecture. \<open>cell9\<close> holds the values the notebook is delivered with.
\<close>

record config =
  batch_size :: nat
  epochs :: nat
  train_examples :: nat
  test_examples :: nat
  use_large_experts :: bool
  use_large_gating_mlp :: bool
  use_large_baseline_classifier :: bool

definition cell9 :: config where
  "cell9 = \<lparr>batch_size = 50, epochs = 1, train_examples = 5000, test_examples = 1000,
     use_large_experts = False, use_large_gating_mlp = False,
     use_large_baseline_classifier = False\<rparr>"

text \<open>
  \<^verbatim>\<open>Dense(units)\<close> on one example: the product of the input with the kernel \<open>W\<close> plus the bias \<open>b\<close>, one value per unit.
  \<^verbatim>\<open>activation='softmax'\<close> divides the exponential of every unit by the sum of all
  of them. Values are real numbers here; the rounding of \<^verbatim>\<open>float32\<close> is not modelled.
\<close>

definition Dense :: "nat \<Rightarrow> (nat \<Rightarrow> nat \<Rightarrow> real) \<Rightarrow> (nat \<Rightarrow> real) \<Rightarrow> real list \<Rightarrow> real list" where
  "Dense units W b x =
     map (\<lambda>j. sum_list (map (\<lambda>i. x ! i * W i j) [0..<length x]) + b j) [0..<units]"

definition softmax :: "real list \<Rightarrow> real list" where
  "softmax z = map (\<lambda>v. exp v / sum_list (map exp z)) z"

text \<open>
  \<^verbatim>\<open>Reshape((rows, cols))\<close> on one example of \<open>rows * cols\<close> values, row by row
  (C order). Keras checks the size when the graph is built; it matches wherever the
  notebook reshapes.
\<close>

definition Reshape :: "nat \<times> nat \<Rightarrow> 'a list \<Rightarrow> 'a list list" where
  "Reshape shape v =
     (case shape of (rows, cols) \<Rightarrow> map (\<lambda>i. take cols (drop (i * cols) v)) [0..<rows])"

text \<open>
  The trained parameters of one sub-network. Everything below its last Dense layer
  (convolutions, pooling, dropout, Flatten, \<^verbatim>\<open>Dense(512, relu)\<close>) is the function
  \<open>below\<close> from the image to the 512 features; the last layer has a kernel and a bias (\<open>top_kernel\<close>, \<open>top_bias\<close>).
\<close>

record 'x net =
  below :: "'x \<Rightarrow> real list"
  top_kernel :: "nat \<Rightarrow> nat \<Rightarrow> real"
  top_bias :: "nat \<Rightarrow> real"

text \<open>
  Cells 17 and 18. Both architectures end with
  \<^verbatim>\<open>vgg = Dense(num_classes, activation='softmax', name=...)(vgg)\<close>; they differ in the
  layers below it (12 against 17 layers in all).
\<close>

definition simpleVGG :: "'x net \<Rightarrow> 'x \<Rightarrow> nat \<Rightarrow> real list" where
  "simpleVGG p cifarInput num_classes =
     softmax (Dense num_classes (top_kernel p) (top_bias p) (below p cifarInput))"

definition fatVGG :: "'x net \<Rightarrow> 'x \<Rightarrow> nat \<Rightarrow> real list" where
  "fatVGG p cifarInput num_classes =
     softmax (Dense num_classes (top_kernel p) (top_bias p) (below p cifarInput))"

text \<open>
  Cell 19: the four sub-networks on the shared input.
  \<^verbatim>\<open>
  if use_large_gating_mlp:
      gate0VGG = fatVGG(cifarInput, gate0_classes, "gate0")
  else:
      gate0VGG = simpleVGG(cifarInput, gate0_classes, "gate0")
  ...
      baseVGG = simpleVGG(cifarInput, orig_classes, "base")
  ...
      artificialVGG = simpleVGG(cifarInput, orig_classes, "artificial")
  ...
      naturalVGG = simpleVGG(cifarInput, orig_classes, "natural")
  \<close>
\<close>

definition gate0VGG :: "config \<Rightarrow> 'x net \<Rightarrow> 'x \<Rightarrow> real list" where
  "gate0VGG cfg p cifarInput =
     (if use_large_gating_mlp cfg then fatVGG p cifarInput gate0_classes
      else simpleVGG p cifarInput gate0_classes)"

definition baseVGG :: "config \<Rightarrow> 'x net \<Rightarrow> 'x \<Rightarrow> real list" where
  "baseVGG cfg p cifarInput =
     (if use_large_baseline_classifier cfg then fatVGG p cifarInput orig_classes
      else simpleVGG p cifarInput orig_classes)"

definition artificialVGG :: "config \<Rightarrow> 'x net \<Rightarrow> 'x \<Rightarrow> real list" where
  "artificialVGG cfg p cifarInput =
     (if use_large_experts cfg then fatVGG p cifarInput orig_classes
      else simpleVGG p cifarInput orig_classes)"

definition naturalVGG :: "config \<Rightarrow> 'x net \<Rightarrow> 'x \<Rightarrow> real list" where
  "naturalVGG cfg p cifarInput =
     (if use_large_experts cfg then fatVGG p cifarInput orig_classes
      else simpleVGG p cifarInput orig_classes)"

text \<open>
  Cell 54:
  \<^verbatim>\<open>
  def subGate(cifarInput, orig_classes, numExperts, name="subGate"):
      ...
      subgate = Dense(orig_classes*numExperts, activation='softmax', name=name[3])(subgate)
      subgate = Reshape((orig_classes, numExperts), name=name[4])(subgate)
      return subgate
  \<close>
  and cell 55: \<^verbatim>\<open>artGate = subGate(cifarInput, orig_classes, 2, "artExpertGate")\<close>,
  \<^verbatim>\<open>natureGate = subGate(cifarInput, orig_classes, 2, "natureExpertGate")\<close>.
\<close>

definition subGate :: "'x net \<Rightarrow> 'x \<Rightarrow> nat \<Rightarrow> nat \<Rightarrow> real list list" where
  "subGate p cifarInput classes numExperts =
     Reshape (classes, numExperts)
       (softmax (Dense (classes * numExperts) (top_kernel p) (top_bias p) (below p cifarInput)))"

definition artGate :: "'x net \<Rightarrow> 'x \<Rightarrow> real list list" where
  "artGate p cifarInput = subGate p cifarInput orig_classes 2"

definition natureGate :: "'x net \<Rightarrow> 'x \<Rightarrow> real list list" where
  "natureGate p cifarInput = subGate p cifarInput orig_classes 2"

section \<open>The mixture: the two Lambda layers\<close>

text \<open>
  The Lambda layers work on batches: a tensor of rank 2 is a list of rows (one per
  example), a tensor of rank 3 a list of matrices. The backend raises when shapes do not
  fit; here that is \<open>None\<close>. The operands of this program have equal shapes, so the
  elementwise operations are modelled for equal shapes only (no broadcasting).
\<close>

definition slice_col :: "'a list list \<Rightarrow> nat \<Rightarrow> 'a list option" where
  \<comment> \<open>\<^verbatim>\<open>t[:,k]\<close>\<close>
  "slice_col t k =
     (if list_all (\<lambda>r. k < length r) t then Some (map (\<lambda>r. r ! k) t) else None)"

definition slice_last :: "'a list list list \<Rightarrow> nat \<Rightarrow> 'a list list option" where
  \<comment> \<open>\<^verbatim>\<open>t[:,:,k]\<close>\<close>
  "slice_last t k =
     (if list_all (list_all (\<lambda>v. k < length v)) t
      then Some (map (map (\<lambda>v. v ! k)) t) else None)"

definition mul2 :: "real list list \<Rightarrow> real list list \<Rightarrow> real list list option" where
  "mul2 a b =
     (if map length a = map length b then Some (map2 (map2 (*)) a b) else None)"

definition add2 :: "real list list \<Rightarrow> real list list \<Rightarrow> real list list option" where
  "add2 a b =
     (if map length a = map length b then Some (map2 (map2 (+)) a b) else None)"

definition greater :: "real list \<Rightarrow> real list \<Rightarrow> bool list option" where
  "greater a b =
     (if length a = length b then Some (map2 (\<lambda>u v. u > v) a b) else None)"

text \<open>
  \<^verbatim>\<open>K.switch(condition, then_expression, else_expression)\<close> with a condition of rank 1
  and expressions of rank 2: the backend selects whole rows (\<^verbatim>\<open>tf.where\<close> with a
  vector condition), the row of \<^verbatim>\<open>then_expression\<close> where the condition holds and the
  row of \<^verbatim>\<open>else_expression\<close> where it does not.
\<close>

definition K_switch :: "bool list \<Rightarrow> 'a list \<Rightarrow> 'a list \<Rightarrow> 'a list option" where
  "K_switch condition then_expression else_expression =
     (if length condition = length then_expression \<and>
         length then_expression = length else_expression
      then Some (map (\<lambda>(c, t, e). if c then t else e)
                  (zip condition (zip then_expression else_expression)))
      else None)"

text \<open>
  Cell 56:
  \<^verbatim>\<open>
  def subGateLambda(base, expert, subgate):
      output = Lambda(lambda gx: (gx[0]*gx[2][:,:,0]) + (gx[1]*gx[2][:,:,1]),
                      output_shape=(orig_classes,))([base, expert, subgate])
      return output
  \<close>
\<close>

definition subGateLambda ::
  "real list list \<Rightarrow> real list list \<Rightarrow> real list list list \<Rightarrow> real list list option" where
  "subGateLambda base expert subgate = do {
     w0 \<leftarrow> slice_last subgate 0;
     l \<leftarrow> mul2 base w0;
     w1 \<leftarrow> slice_last subgate 1;
     r \<leftarrow> mul2 expert w1;
     add2 l r
   }"

text \<open>
  Cell 57:
  \<^verbatim>\<open>
  output = Lambda(lambda gx: K.switch(gx[1][:,0] > gx[1][:,1],
                                      subGateLambda(gx[0], gx[2], gx[4]),
                                      subGateLambda(gx[0], gx[3], gx[5])),
                  output_shape=(orig_classes,))([baseVGG, gate0VGG, artificialVGG, naturalVGG, artGate, natureGate])
  \<close>
  The six tensors of \<^verbatim>\<open>gx\<close> are the six arguments, in the order of the list
  (the name \<open>output\<close> is reserved in Isabelle, hence \<open>output_layer\<close>).
\<close>

definition output_layer ::
  "real list list \<Rightarrow> real list list \<Rightarrow> real list list \<Rightarrow> real list list \<Rightarrow>
   real list list list \<Rightarrow> real list list list \<Rightarrow> real list list option" where
  "output_layer gx0 gx1 gx2 gx3 gx4 gx5 = do {
     g0 \<leftarrow> slice_col gx1 0;
     g1 \<leftarrow> slice_col gx1 1;
     condition \<leftarrow> greater g0 g1;
     a \<leftarrow> subGateLambda gx0 gx2 gx4;
     n \<leftarrow> subGateLambda gx0 gx3 gx5;
     K_switch condition a n
   }"

text \<open>
  Cell 58, \<^verbatim>\<open>model = Model(cifarInput, output)\<close>: the mixture on a batch of images,
  with the parameters of its six sub-networks.
\<close>

record 'x params =
  base_p :: "'x net"
  gate0_p :: "'x net"
  artificial_p :: "'x net"
  natural_p :: "'x net"
  artGate_p :: "'x net"
  natureGate_p :: "'x net"

definition mixture :: "config \<Rightarrow> 'x params \<Rightarrow> 'x list \<Rightarrow> real list list option" where
  "mixture cfg P xs =
     output_layer (map (baseVGG cfg (base_p P)) xs)
            (map (gate0VGG cfg (gate0_p P)) xs)
            (map (artificialVGG cfg (artificial_p P)) xs)
            (map (naturalVGG cfg (natural_p P)) xs)
            (map (artGate (artGate_p P)) xs)
            (map (natureGate (natureGate_p P)) xs)"

text \<open>
  One row of the result of \<open>subGateLambda\<close>: the body of its lambda on one example.
\<close>

definition blend_row :: "real list \<Rightarrow> real list \<Rightarrow> real list list \<Rightarrow> real list" where
  "blend_row base expert subgate =
     map (\<lambda>c. base ! c * subgate ! c ! 0 + expert ! c * subgate ! c ! 1) [0..<length base]"

section \<open>Layers, trainable flags and training\<close>

text \<open>
  Python's \<^verbatim>\<open>str(i)\<close> for a number that is not negative.
\<close>

fun str :: "nat \<Rightarrow> string" where
  "str n = (if n < 10 then [''0123456789'' ! n]
            else str (n div 10) @ [''0123456789'' ! (n mod 10)])"

declare str.simps [simp del]

text \<open>
  Every layer is created with a name: \<^verbatim>\<open>name = [name+str(i) for i in range(12)]\<close> in
  \<^verbatim>\<open>simpleVGG\<close>, \<^verbatim>\<open>range(17)\<close> in \<^verbatim>\<open>fatVGG\<close>, \<^verbatim>\<open>range(5)\<close> in
  \<^verbatim>\<open>subGate\<close>, one layer per name. Layer objects are shared between the models
  built on them, so a layer is known by its name and a model is the list of the names of
  its layers (\<^verbatim>\<open>model.layers\<close>; the order of the list plays no part below).
\<close>

definition layer_names :: "string \<Rightarrow> nat \<Rightarrow> string list" where
  "layer_names name k = map (\<lambda>i. name @ str i) [0..<k]"

definition simpleVGG_layers :: "string \<Rightarrow> string list" where
  "simpleVGG_layers name = layer_names name 12"

definition fatVGG_layers :: "string \<Rightarrow> string list" where
  "fatVGG_layers name = layer_names name 17"

definition subGate_layers :: "string \<Rightarrow> string list" where
  "subGate_layers name = layer_names name 5"

datatype model_id = BaseModel | Gate0Model | ArtificialModel | NaturalModel | MixtureModel

text \<open>
  The layers below the output of each model of cell 19, without the input layer
  \<^verbatim>\<open>Input(..., name="input")\<close> of cell 16 that all of them share.
\<close>

definition gate0_layers :: "config \<Rightarrow> string list" where
  "gate0_layers cfg =
     (if use_large_gating_mlp cfg then fatVGG_layers ''gate0'' else simpleVGG_layers ''gate0'')"

definition base_layers :: "config \<Rightarrow> string list" where
  "base_layers cfg =
     (if use_large_baseline_classifier cfg then fatVGG_layers ''base''
      else simpleVGG_layers ''base'')"

definition artificial_layers :: "config \<Rightarrow> string list" where
  "artificial_layers cfg =
     (if use_large_experts cfg then fatVGG_layers ''artificial''
      else simpleVGG_layers ''artificial'')"

definition natural_layers :: "config \<Rightarrow> string list" where
  "natural_layers cfg =
     (if use_large_experts cfg then fatVGG_layers ''natural'' else simpleVGG_layers ''natural'')"

text \<open>
  \<^verbatim>\<open>Model(cifarInput, out).layers\<close>: the input layer and every layer between it and
  the output. The mixture of cell 58 reaches all six sub-networks and ends in the Lambda
  layer of cell 57, which Keras names \<^verbatim>\<open>lambda_1\<close>.
\<close>

fun layers :: "config \<Rightarrow> model_id \<Rightarrow> string list" where
  "layers cfg BaseModel = ''input'' # base_layers cfg"
| "layers cfg Gate0Model = ''input'' # gate0_layers cfg"
| "layers cfg ArtificialModel = ''input'' # artificial_layers cfg"
| "layers cfg NaturalModel = ''input'' # natural_layers cfg"
| "layers cfg MixtureModel =
     ''input'' # base_layers cfg @ gate0_layers cfg @ artificial_layers cfg @ natural_layers cfg
       @ subGate_layers ''artExpertGate'' @ subGate_layers ''natureExpertGate'' @ [''lambda_1'']"

text \<open>
  The state the cells act on: for every layer name its \<^verbatim>\<open>trainable\<close> flag and its
  weights, for every model the layers whose weights \<^verbatim>\<open>compile\<close> collected for
  training (\<open>None\<close> before the model is compiled), and the checkpoint directories on
  disk. \<open>history\<close> is a ghost field: the calls of \<^verbatim>\<open>fit\<close> so far, each with the
  arrays it was given, and their returns.
\<close>

datatype 'x event = FitBegin model_id "'x list" "real list list" | FitEnd model_id

record 'x state =
  trainable :: "string \<Rightarrow> bool"
  weights :: weights
  collected :: "model_id \<Rightarrow> string list option"
  disk :: filesystem
  history :: "'x event list"

text \<open>
  What the notebook takes from its libraries and from the machine, as parameters: the
  CIFAR-10 arrays, the conversion of an image to \<^verbatim>\<open>float32\<close> divided by 255, the
  effect of \<^verbatim>\<open>shutil.rmtree(d, ignore_errors=True)\<close> and of
  \<^verbatim>\<open>if not os.path.isdir(d): os.makedirs(d)\<close> on the disk, the initial weights of a
  new layer, the weights that the optimiser (Adam on the categorical cross-entropy, with
  early stopping) computes from the training and validation arrays, and the files that
  the checkpoint callback writes meanwhile.
\<close>

record 'x library =
  load_data :: "('x list \<times> nat list) \<times> ('x list \<times> nat list)"
  rescale :: "'x \<Rightarrow> 'x"
  rmtree :: "string \<Rightarrow> filesystem \<Rightarrow> filesystem"
  makedirs :: "string \<Rightarrow> filesystem \<Rightarrow> filesystem"
  initializer :: "string \<Rightarrow> real list"
  optimizer :: "model_id \<Rightarrow> nat \<Rightarrow> nat \<Rightarrow> 'x list \<Rightarrow> real list list \<Rightarrow>
                'x list \<times> real list list \<Rightarrow> weights \<Rightarrow> weights"
  checkpointer :: "model_id \<Rightarrow> string \<Rightarrow> nat \<Rightarrow> nat \<Rightarrow> 'x list \<Rightarrow> real list list \<Rightarrow>
                   'x list \<times> real list list \<Rightarrow> weights \<Rightarrow> filesystem \<Rightarrow> filesystem"

text \<open>
  A layer constructor (\<^verbatim>\<open>Conv2D(...)\<close>, \<^verbatim>\<open>Dense(...)\<close>, \<^verbatim>\<open>Lambda(...)\<close>, ...)
  makes a layer that is trainable and holds its initial weights.
\<close>

definition create :: "'x library \<Rightarrow> string list \<Rightarrow> 'x state \<Rightarrow> 'x state" where
  "create K names s =
     fold (\<lambda>l s. s\<lparr>trainable := (trainable s)(l := True),
                    weights := (weights s)(l := initializer K l)\<rparr>) names s"

text \<open>
  \<^verbatim>\<open>for l in m.layers: l.trainable = False\<close>.
\<close>

definition freeze :: "string list \<Rightarrow> 'x state \<Rightarrow> 'x state" where
  "freeze names s = fold (\<lambda>l s. s\<lparr>trainable := (trainable s)(l := False)\<rparr>) names s"

text \<open>
  \<^verbatim>\<open>m.compile(loss=..., optimizer=Adam(), metrics=[...])\<close> collects the weights of the
  layers of \<^verbatim>\<open>m\<close> that are trainable at that moment; these are the weights a later
  \<^verbatim>\<open>fit\<close> updates.
\<close>

definition compile :: "config \<Rightarrow> model_id \<Rightarrow> 'x state \<Rightarrow> 'x state" where
  "compile cfg m s =
     s\<lparr>collected := (collected s)(m := Some (filter (trainable s) (layers cfg m)))\<rparr>"

text \<open>
  \<^verbatim>\<open>m.fit(x, y, batch_size=..., epochs=..., validation_data=..., callbacks=[es_cb, cp_cb])\<close>
  returns when training is over. It raises (\<open>None\<close>) on a model that was not compiled
  and on arrays of different lengths. When there is an epoch to run it also raises on a
  batch size of zero (the batches cannot be cut), and on an empty training or validation
  array: no validation loss is computed then, and the checkpoint callback of the notebook
  cannot fill the \<^verbatim>\<open>{val_loss:.2f}\<close> of its file name at the end of the epoch. Otherwise
  it replaces the collected weights by what the optimiser computes and leaves every other
  weight as it is; the checkpoint callback writes to the directory of the model.
\<close>

definition fit ::
  "'x library \<Rightarrow> model_id \<Rightarrow> string \<Rightarrow> 'x list \<Rightarrow> real list list \<Rightarrow> nat \<Rightarrow> nat \<Rightarrow>
   'x list \<times> real list list \<Rightarrow> 'x state \<Rightarrow> 'x state option" where
  "fit K m saveDir x y batch epochs_n validation_data s =
     (case collected s m of
        None \<Rightarrow> None
      | Some tw \<Rightarrow>
          if length x \<noteq> length y \<or>
             length (fst validation_data) \<noteq> length (snd validation_data) then None
          else if 0 < epochs_n \<and> (batch = 0 \<or> x = [] \<or> fst validation_data = []) then None
          else
            let w' = optimizer K m batch epochs_n x y validation_data (weights s)
            in Some (s\<lparr>weights := (\<lambda>l. if l \<in> set tw then w' l else weights s l),
                       disk := checkpointer K m saveDir batch epochs_n x y validation_data
                                 (weights s) (disk s),
                       history := history s @ [FitBegin m x y, FitEnd m]\<rparr>))"

text \<open>
  \<^verbatim>\<open>m = getNewestModel(m, saveDir)\<close> on the state.
\<close>

definition reload :: "config \<Rightarrow> model_id \<Rightarrow> string \<Rightarrow> 'x state \<Rightarrow> 'x state option" where
  "reload cfg m saveDir s =
     (case getNewestModel (disk s) (layers cfg m) (weights s) saveDir of
        None \<Rightarrow> None
      | Some w \<Rightarrow> Some (s\<lparr>weights := w\<rparr>))"

section \<open>The notebook, cell by cell\<close>

text \<open>
  Cell 10 removes the checkpoint directories of an earlier run.
\<close>

definition cell10 :: "'x library \<Rightarrow> 'x state \<Rightarrow> 'x state" where
  "cell10 K s =
     s\<lparr>disk := fold (rmtree K)
        [''gate0Cifar10'', ''moe3Cifar10'', ''natureCifar10'', ''baseCifar10'', ''artCifar10'']
        (disk s)\<rparr>"

text \<open>
  Cells 12 and 13:
  \<^verbatim>\<open>
  (x_train, y_train), (x_test, y_test) = cifar10.load_data()
  x_train = x_train[:train_examples] ; x_test = x_test[:test_examples]
  y_train = y_train[:train_examples] ; y_test = y_test[:test_examples]
  \<close>
  and the conversion of the images.
\<close>

record 'x data =
  x_train :: "'x list"
  y_train :: "nat list"
  x_test :: "'x list"
  y_test :: "nat list"

definition cells12_13 :: "'x library \<Rightarrow> config \<Rightarrow> 'x data" where
  "cells12_13 K cfg =
     (case load_data K of
        ((xtr, ytr), (xte, yte)) \<Rightarrow>
          \<lparr>x_train = map (rescale K) (take (train_examples cfg) xtr),
           y_train = take (train_examples cfg) ytr,
           x_test = map (rescale K) (take (test_examples cfg) xte),
           y_test = take (test_examples cfg) yte\<rparr>)"

text \<open>
  Cells 16 to 19 create the input layer and the layers of the four sub-networks.
\<close>

definition cells16_19 :: "'x library \<Rightarrow> config \<Rightarrow> 'x state \<Rightarrow> 'x state" where
  "cells16_19 K cfg s =
     create K (''input'' # gate0_layers cfg @ base_layers cfg @ artificial_layers cfg
                 @ natural_layers cfg) s"

text \<open>
  Cells 22 to 25, the 10-class classifier: compile, make the checkpoint directory, load
  the newest checkpoint if there is one, train, and load the newest checkpoint again
  before the evaluation (which prints a score and changes nothing).
  \<^verbatim>\<open>
  baseModel.compile(...)
  baseSaveDir = "./baseCifar10/"
  ...
  baseModel = getNewestModel(baseModel, baseSaveDir)
  baseModel.fit(x_train, y_train0, batch_size=batch_size, epochs=epochs,
                validation_data=(x_test, y_test0), callbacks=[es_cb,cp_cb])
  baseModel = getNewestModel(baseModel, baseSaveDir)
  \<close>
\<close>

definition cells22_25 ::
  "'x library \<Rightarrow> config \<Rightarrow> 'x data \<Rightarrow> real list list \<Rightarrow> real list list \<Rightarrow> 'x state \<Rightarrow>
   'x state option" where
  "cells22_25 K cfg d y_train0 y_test0 s0 = do {
     let s = compile cfg BaseModel s0;
     let s = s\<lparr>disk := makedirs K ''./baseCifar10/'' (disk s)\<rparr>;
     s \<leftarrow> reload cfg BaseModel ''./baseCifar10/'' s;
     s \<leftarrow> fit K BaseModel ''./baseCifar10/'' (x_train d) y_train0 (batch_size cfg) (epochs cfg)
           (x_test d, y_test0) s;
     reload cfg BaseModel ''./baseCifar10/'' s
   }"

text \<open>
  Cells 27 to 31, the artificial/natural classifier, on the labels of cell 27.
\<close>

definition cells27_31 :: "'x library \<Rightarrow> config \<Rightarrow> 'x data \<Rightarrow> 'x state \<Rightarrow> 'x state option" where
  "cells27_31 K cfg d s0 = do {
     y_trG0 \<leftarrow> y_trainG0 (y_train d);
     y_teG0 \<leftarrow> y_testG0 (y_test d);
     let s = compile cfg Gate0Model s0;
     let s = s\<lparr>disk := makedirs K ''./gate0Cifar10/'' (disk s)\<rparr>;
     s \<leftarrow> reload cfg Gate0Model ''./gate0Cifar10/'' s;
     s \<leftarrow> fit K Gate0Model ''./gate0Cifar10/'' (x_train d) y_trG0 (batch_size cfg) (epochs cfg)
           (x_test d, y_teG0) s;
     reload cfg Gate0Model ''./gate0Cifar10/'' s
   }"

text \<open>
  Cells 33 to 40, the artificial expert:
  \<^verbatim>\<open>
  x_trainArt = x_train[artTrain]
  x_testArt = x_test[artTest]
  y_trainArt = y_train[artTrain]
  y_testArt = y_test[artTest]
  y_trainArt = keras.utils.to_categorical(y_trainArt, orig_classes)
  y_testArt = keras.utils.to_categorical(y_testArt, orig_classes)
  ...
  artificialModel.fit(x_trainArt, y_trainArt, batch_size=batch_size, epochs=epochs,
                      validation_data=(x_testArt, y_testArt), callbacks=[es_cb,cp_cb])
  \<close>
\<close>

definition cells33_40 :: "'x library \<Rightarrow> config \<Rightarrow> 'x data \<Rightarrow> 'x state \<Rightarrow> 'x state option" where
  "cells33_40 K cfg d s0 = do {
     x_trainArt \<leftarrow> take_rows (x_train d) (artTrain (y_train d));
     x_testArt \<leftarrow> take_rows (x_test d) (artTest (y_test d));
     y_trainArt \<leftarrow> take_rows (y_train d) (artTrain (y_train d));
     y_testArt \<leftarrow> take_rows (y_test d) (artTest (y_test d));
     y_trainArt \<leftarrow> to_categorical y_trainArt orig_classes;
     y_testArt \<leftarrow> to_categorical y_testArt orig_classes;
     let s = compile cfg ArtificialModel s0;
     let s = s\<lparr>disk := makedirs K ''./artCifar10/'' (disk s)\<rparr>;
     s \<leftarrow> reload cfg ArtificialModel ''./artCifar10/'' s;
     s \<leftarrow> fit K ArtificialModel ''./artCifar10/'' x_trainArt y_trainArt (batch_size cfg)
           (epochs cfg) (x_testArt, y_testArt) s;
     reload cfg ArtificialModel ''./artCifar10/'' s
   }"

text \<open>
  Cells 42 to 47, the natural expert, the same with \<^verbatim>\<open>natureTrain\<close> and
  \<^verbatim>\<open>natureTest\<close>.
\<close>

definition cells42_47 :: "'x library \<Rightarrow> config \<Rightarrow> 'x data \<Rightarrow> 'x state \<Rightarrow> 'x state option" where
  "cells42_47 K cfg d s0 = do {
     x_trainNat \<leftarrow> take_rows (x_train d) (natureTrain (y_train d));
     x_testNat \<leftarrow> take_rows (x_test d) (natureTest (y_test d));
     y_trainNat \<leftarrow> take_rows (y_train d) (natureTrain (y_train d));
     y_testNat \<leftarrow> take_rows (y_test d) (natureTest (y_test d));
     y_trainNat \<leftarrow> to_categorical y_trainNat orig_classes;
     y_testNat \<leftarrow> to_categorical y_testNat orig_classes;
     let s = compile cfg NaturalModel s0;
     let s = s\<lparr>disk := makedirs K ''./natureCifar10/'' (disk s)\<rparr>;
     s \<leftarrow> reload cfg NaturalModel ''./natureCifar10/'' s;
     s \<leftarrow> fit K NaturalModel ''./natureCifar10/'' x_trainNat y_trainNat (batch_size cfg)
           (epochs cfg) (x_testNat, y_testNat) s;
     reload cfg NaturalModel ''./natureCifar10/'' s
   }"

text \<open>
  Cell 51:
  \<^verbatim>\<open>
  for l in baseModel.layers:
      l.trainable = False
  for l in gate0Model.layers:
      l.trainable = False
  for l in artificialModel.layers:
      l.trainable = False
  for l in naturalModel.layers:
      l.trainable = False
  \<close>
\<close>

definition cell51 :: "config \<Rightarrow> 'x state \<Rightarrow> 'x state" where
  "cell51 cfg s =
     freeze (layers cfg NaturalModel)
       (freeze (layers cfg ArtificialModel)
         (freeze (layers cfg Gate0Model)
           (freeze (layers cfg BaseModel) s)))"

text \<open>
  Cells 54 to 58 create the layers of the two sub-gate networks and the Lambda layer of
  the output; cell 59 compiles the mixture; cell 61 makes its checkpoint directory and
  loads the newest checkpoint if there is one; cell 62 trains it:
  \<^verbatim>\<open>
  model.fit(x_train, y_train0, batch_size=batch_size, epochs=epochs,
            validation_data=(x_test, y_test0), callbacks=[es_cb, cp_cb])
  \<close>
\<close>

definition cells54_58 :: "'x library \<Rightarrow> 'x state \<Rightarrow> 'x state" where
  "cells54_58 K s =
     create K (subGate_layers ''artExpertGate'' @ subGate_layers ''natureExpertGate''
                 @ [''lambda_1'']) s"

definition cell59 :: "config \<Rightarrow> 'x state \<Rightarrow> 'x state" where
  "cell59 cfg s = compile cfg MixtureModel s"

definition cell61 :: "'x library \<Rightarrow> config \<Rightarrow> 'x state \<Rightarrow> 'x state option" where
  "cell61 K cfg s =
     reload cfg MixtureModel ''./moe3Cifar10/''
       (s\<lparr>disk := makedirs K ''./moe3Cifar10/'' (disk s)\<rparr>)"

definition cell62 ::
  "'x library \<Rightarrow> config \<Rightarrow> 'x data \<Rightarrow> real list list \<Rightarrow> real list list \<Rightarrow> 'x state \<Rightarrow>
   'x state option" where
  "cell62 K cfg d y_train0 y_test0 s =
     fit K MixtureModel ''./moe3Cifar10/'' (x_train d) y_train0 (batch_size cfg) (epochs cfg)
       (x_test d, y_test0) s"

text \<open>
  The whole notebook, run from top to bottom on the state \<open>s0\<close>. Cell 14 encodes the
  labels of all ten classes; a cell that raises stops the run (\<open>None\<close>).
\<close>

definition notebook :: "'x library \<Rightarrow> config \<Rightarrow> 'x state \<Rightarrow> 'x state option" where
  "notebook K cfg s0 = do {
     let s = cell10 K s0;
     let d = cells12_13 K cfg;
     y_train0 \<leftarrow> to_categorical (y_train d) orig_classes;
     y_test0 \<leftarrow> to_categorical (y_test d) orig_classes;
     let s = cells16_19 K cfg s;
     s \<leftarrow> cells22_25 K cfg d y_train0 y_test0 s;
     s \<leftarrow> cells27_31 K cfg d s;
     s \<leftarrow> cells33_40 K cfg d s;
     s \<leftarrow> cells42_47 K cfg d s;
     let s = cell51 cfg s;
     let s = cells54_58 K s;
     let s = cell59 cfg s;
     s \<leftarrow> cell61 K cfg s;
     cell62 K cfg d y_train0 y_test0 s
   }"

text \<open>
  The state of a kernel that has run no cell yet: no layer exists, no model is compiled,
  \<^verbatim>\<open>fit\<close> was never called; the disk is whatever it is.
\<close>

definition fresh_kernel :: "filesystem \<Rightarrow> 'x state" where
  "fresh_kernel fs =
     \<lparr>trainable = (\<lambda>l. False), weights = (\<lambda>l. []), collected = (\<lambda>m. None), disk = fs,
      history = []\<rparr>"

section \<open>Data preparation: what the gate is trained to say\<close>

text \<open>
  C7. The ground truth of the level-1 gate is a function of the class label alone:
  the one-hot row of category 0 (artificial) for a label in {0, 1, 8, 9}, and the one-hot
  row of category 1 (natural) for every other label, over two classes, for the training
  and for the test labels. The encoding never fails.
\<close>

theorem gate0_ground_truth:
  "y_trainG0 ytr =
     Some (map (\<lambda>i. if i \<in> {0, 1, 8, 9} then [1, 0] else [0, 1]) ytr) \<and>
   y_testG0 yte =
     Some (map (\<lambda>i. if i \<in> {0, 1, 8, 9} then [1, 0] else [0, 1]) yte)"
proof -
  have enc: "to_categorical (G0_labels y) 2 =
      Some (map (\<lambda>i. if i \<in> {0, 1, 8, 9} then [1, 0] else [0, 1]) y)" for y :: "nat list"
  proof -
    have two: "[0..<2] = [0, Suc 0]"
      by (simp add: numeral_2_eq_2)
    have small: "list_all (\<lambda>v. v < 2) (G0_labels y)"
      by (auto simp add: G0_labels_def list_all_iff)
    show ?thesis
      unfolding to_categorical_def using small
      by (simp add: G0_labels_def two)
  qed
  show ?thesis
    by (simp add: y_trainG0_def y_testG0_def enc)
qed

section \<open>Shapes of the sub-networks\<close>

lemma length_softmax: "length (softmax z) = length z"
  by (simp add: softmax_def)

lemma length_Dense: "length (Dense units W b x) = units"
  by (simp add: Dense_def)

lemma length_simpleVGG: "length (simpleVGG p x n) = n"
  by (simp add: simpleVGG_def length_softmax length_Dense)

lemma length_fatVGG: "length (fatVGG p x n) = n"
  by (simp add: fatVGG_def length_softmax length_Dense)

lemma length_Reshape: "length (Reshape (r, c) v) = r"
  by (simp add: Reshape_def)

lemma nth_Reshape: "i < r \<Longrightarrow> Reshape (r, c) v ! i = take c (drop (i * c) v)"
  by (simp add: Reshape_def)

lemma Reshape_row_length:
  assumes "length v = r * c" "i < r"
  shows "length (Reshape (r, c) v ! i) = c"
proof -
  have "Suc i \<le> r" using assms(2) by simp
  then have "Suc i * c \<le> r * c" by (rule mult_le_mono1)
  then have "c \<le> r * c - i * c" by simp
  then show ?thesis using assms by (simp add: nth_Reshape)
qed

lemma Reshape_entry:
  assumes "length v = r * c" "i < r" "j < c"
  shows "Reshape (r, c) v ! i ! j = v ! (i * c + j)"
proof -
  have "Suc i \<le> r" using assms(2) by simp
  then have "Suc i * c \<le> r * c" by (rule mult_le_mono1)
  then have "i * c + j < length v" using assms by simp
  then show ?thesis using assms by (simp add: nth_Reshape)
qed

section \<open>The Lambda layers on well-shaped batches\<close>

lemma slice_last_Some:
  assumes "\<And>b c. b < length t \<Longrightarrow> c < length (t ! b) \<Longrightarrow> k < length (t ! b ! c)"
  shows "slice_last t k = Some (map (map (\<lambda>v. v ! k)) t)"
  using assms by (auto simp: slice_last_def list_all_length)

lemma subGateLambda_Some:
  assumes B: "length base = B" "length expert = B" "length subgate = B"
    and rows: "\<And>b. b < B \<Longrightarrow> length (base ! b) = n \<and> length (expert ! b) = n \<and> length (subgate ! b) = n"
    and cols: "\<And>b c. b < B \<Longrightarrow> c < n \<Longrightarrow> length (subgate ! b ! c) = 2"
  shows "subGateLambda base expert subgate =
     Some (map (\<lambda>b. map (\<lambda>c. base ! b ! c * subgate ! b ! c ! 0 + expert ! b ! c * subgate ! b ! c ! 1) [0..<n]) [0..<B])"
proof -
  have s0: "slice_last subgate 0 = Some (map (map (\<lambda>v. v ! 0)) subgate)"
    using B rows cols by (intro slice_last_Some) auto
  have s1: "slice_last subgate 1 = Some (map (map (\<lambda>v. v ! 1)) subgate)"
    using B rows cols by (intro slice_last_Some) auto
  have lb: "map length base = map length (map (map (\<lambda>v. v ! 0)) subgate)"
    using B rows by (auto intro!: nth_equalityI)
  have le: "map length expert = map length (map (map (\<lambda>v. v ! 1)) subgate)"
    using B rows by (auto intro!: nth_equalityI)
  have m0: "mul2 base (map (map (\<lambda>v. v ! 0)) subgate) = Some (map2 (map2 (*)) base (map (map (\<lambda>v. v ! 0)) subgate))"
    using lb by (simp add: mul2_def)
  have m1: "mul2 expert (map (map (\<lambda>v. v ! 1)) subgate) = Some (map2 (map2 (*)) expert (map (map (\<lambda>v. v ! 1)) subgate))"
    using le by (simp add: mul2_def)
  let ?l = "map2 (map2 (*)) base (map (map (\<lambda>v. v ! 0)) subgate)"
  let ?r = "map2 (map2 (*)) expert (map (map (\<lambda>v. v ! 1)) subgate)"
  have ll: "map length ?l = map length ?r"
    using B rows by (auto intro!: nth_equalityI)
  have a: "add2 ?l ?r = Some (map2 (map2 (+)) ?l ?r)"
    using ll by (simp add: add2_def)
  have eq: "map2 (map2 (+)) ?l ?r =
     map (\<lambda>b. map (\<lambda>c. base ! b ! c * subgate ! b ! c ! 0 + expert ! b ! c * subgate ! b ! c ! 1) [0..<n]) [0..<B]"
  proof (rule nth_equalityI)
    show "length (map2 (map2 (+)) ?l ?r) = length (map (\<lambda>b. map (\<lambda>c. base ! b ! c * subgate ! b ! c ! 0 + expert ! b ! c * subgate ! b ! c ! 1) [0..<n]) [0..<B])"
      using B by simp
  next
    fix b assume "b < length (map2 (map2 (+)) ?l ?r)"
    then have b: "b < B" using B by simp
    show "map2 (map2 (+)) ?l ?r ! b = map (\<lambda>b. map (\<lambda>c. base ! b ! c * subgate ! b ! c ! 0 + expert ! b ! c * subgate ! b ! c ! 1) [0..<n]) [0..<B] ! b"
      using b B rows[OF b] by (auto intro!: nth_equalityI)
  qed
  show ?thesis
    by (simp only: subGateLambda_def s0 s1 m0 m1 a eq Option.bind.simps)
qed


lemma slice_col_Some:
  assumes "\<And>b. b < length t \<Longrightarrow> k < length (t ! b)"
  shows "slice_col t k = Some (map (\<lambda>r. r ! k) t)"
  using assms by (auto simp: slice_col_def list_all_length)

lemma subGateLambda_rows:
  assumes B: "length base = B" "length expert = B" "length subgate = B"
    and rows: "\<And>b. b < B \<Longrightarrow> length (base ! b) = n \<and> length (expert ! b) = n \<and> length (subgate ! b) = n"
    and cols: "\<And>b c. b < B \<Longrightarrow> c < n \<Longrightarrow> length (subgate ! b ! c) = 2"
  shows "subGateLambda base expert subgate =
     Some (map (\<lambda>b. blend_row (base ! b) (expert ! b) (subgate ! b)) [0..<B])"
proof -
  have "map (\<lambda>b. blend_row (base ! b) (expert ! b) (subgate ! b)) [0..<B] =
     map (\<lambda>b. map (\<lambda>c. base ! b ! c * subgate ! b ! c ! 0 + expert ! b ! c * subgate ! b ! c ! 1) [0..<n]) [0..<B]"
    using rows by (simp add: blend_row_def)
  then show ?thesis
    using subGateLambda_Some[OF B rows cols] by simp
qed

lemma output_layer_Some:
  assumes B: "length gx0 = B" "length gx1 = B" "length gx2 = B" "length gx3 = B"
      "length gx4 = B" "length gx5 = B"
    and gate: "\<And>b. b < B \<Longrightarrow> length (gx1 ! b) = 2"
    and rows: "\<And>b. b < B \<Longrightarrow> length (gx0 ! b) = n \<and> length (gx2 ! b) = n \<and> length (gx3 ! b) = n
        \<and> length (gx4 ! b) = n \<and> length (gx5 ! b) = n"
    and cols: "\<And>b c. b < B \<Longrightarrow> c < n \<Longrightarrow> length (gx4 ! b ! c) = 2 \<and> length (gx5 ! b ! c) = 2"
  shows "output_layer gx0 gx1 gx2 gx3 gx4 gx5 =
     Some (map (\<lambda>b. if gx1 ! b ! 0 > gx1 ! b ! 1
                     then blend_row (gx0 ! b) (gx2 ! b) (gx4 ! b)
                     else blend_row (gx0 ! b) (gx3 ! b) (gx5 ! b)) [0..<B])"
proof -
  let ?g0 = "map (\<lambda>r. r ! 0) gx1" and ?g1 = "map (\<lambda>r. r ! 1) gx1"
  let ?a = "map (\<lambda>b. blend_row (gx0 ! b) (gx2 ! b) (gx4 ! b)) [0..<B]"
  let ?n = "map (\<lambda>b. blend_row (gx0 ! b) (gx3 ! b) (gx5 ! b)) [0..<B]"
  let ?c = "map2 (\<lambda>u v. u > v) ?g0 ?g1"
  have c0: "slice_col gx1 0 = Some ?g0"
    using B gate by (intro slice_col_Some) simp
  have c1: "slice_col gx1 1 = Some ?g1"
    using B gate by (intro slice_col_Some) simp
  have gr: "greater ?g0 ?g1 = Some ?c"
    by (simp add: greater_def)
  have a: "subGateLambda gx0 gx2 gx4 = Some ?a"
    using B rows cols by (intro subGateLambda_rows) auto
  have n: "subGateLambda gx0 gx3 gx5 = Some ?n"
    using B rows cols by (intro subGateLambda_rows) auto
  have sw: "K_switch ?c ?a ?n =
      Some (map (\<lambda>(c, t, e). if c then t else e) (zip ?c (zip ?a ?n)))"
    using B by (simp add: K_switch_def)
  have eq: "map (\<lambda>(c, t, e). if c then t else e) (zip ?c (zip ?a ?n)) =
      map (\<lambda>b. if gx1 ! b ! 0 > gx1 ! b ! 1
                     then blend_row (gx0 ! b) (gx2 ! b) (gx4 ! b)
                     else blend_row (gx0 ! b) (gx3 ! b) (gx5 ! b)) [0..<B]"
    using B by (auto intro!: nth_equalityI)
  show ?thesis
    by (simp only: output_layer_def c0 c1 gr a n sw eq Option.bind.simps)
qed


lemma length_baseVGG: "length (baseVGG cfg p x) = orig_classes"
  by (simp add: baseVGG_def length_simpleVGG length_fatVGG)

lemma length_artificialVGG: "length (artificialVGG cfg p x) = orig_classes"
  by (simp add: artificialVGG_def length_simpleVGG length_fatVGG)

lemma length_naturalVGG: "length (naturalVGG cfg p x) = orig_classes"
  by (simp add: naturalVGG_def length_simpleVGG length_fatVGG)

lemma length_gate0VGG: "length (gate0VGG cfg p x) = gate0_classes"
  by (simp add: gate0VGG_def length_simpleVGG length_fatVGG)

lemma length_subGate: "length (subGate p x n k) = n"
  by (simp add: subGate_def length_Reshape)

lemma subGate_row_length: "c < n \<Longrightarrow> length (subGate p x n k ! c) = k"
  unfolding subGate_def
  by (rule Reshape_row_length) (simp_all add: length_softmax length_Dense)

lemma subGate_entry:
  "c < n \<Longrightarrow> j < k \<Longrightarrow>
   subGate p x n k ! c ! j =
     softmax (Dense (n * k) (top_kernel p) (top_bias p) (below p x)) ! (c * k + j)"
  unfolding subGate_def
  by (rule Reshape_entry) (simp_all add: length_softmax length_Dense)

lemma mixture_rows:
  "mixture cfg P xs =
     Some (map (\<lambda>x. if gate0VGG cfg (gate0_p P) x ! 0 > gate0VGG cfg (gate0_p P) x ! 1
                     then blend_row (baseVGG cfg (base_p P) x) (artificialVGG cfg (artificial_p P) x)
                            (artGate (artGate_p P) x)
                     else blend_row (baseVGG cfg (base_p P) x) (naturalVGG cfg (natural_p P) x)
                            (natureGate (natureGate_p P) x)) xs)"
proof -
  let ?B = "length xs"
  have "mixture cfg P xs =
     Some (map (\<lambda>b. if map (gate0VGG cfg (gate0_p P)) xs ! b ! 0 > map (gate0VGG cfg (gate0_p P)) xs ! b ! 1
                     then blend_row (map (baseVGG cfg (base_p P)) xs ! b)
                            (map (artificialVGG cfg (artificial_p P)) xs ! b)
                            (map (artGate (artGate_p P)) xs ! b)
                     else blend_row (map (baseVGG cfg (base_p P)) xs ! b)
                            (map (naturalVGG cfg (natural_p P)) xs ! b)
                            (map (natureGate (natureGate_p P)) xs ! b)) [0..<?B])"
    unfolding mixture_def
  proof (rule output_layer_Some[where n = orig_classes])
    fix b assume "b < ?B"
    then show "length (map (gate0VGG cfg (gate0_p P)) xs ! b) = 2"
      by (simp add: length_gate0VGG gate0_classes_def)
  next
    fix b assume "b < ?B"
    then show "length (map (baseVGG cfg (base_p P)) xs ! b) = orig_classes \<and>
       length (map (artificialVGG cfg (artificial_p P)) xs ! b) = orig_classes \<and>
       length (map (naturalVGG cfg (natural_p P)) xs ! b) = orig_classes \<and>
       length (map (artGate (artGate_p P)) xs ! b) = orig_classes \<and>
       length (map (natureGate (natureGate_p P)) xs ! b) = orig_classes"
      by (simp add: length_baseVGG length_artificialVGG length_naturalVGG artGate_def
          natureGate_def length_subGate)
  next
    fix b c assume "b < ?B" "c < orig_classes"
    then show "length (map (artGate (artGate_p P)) xs ! b ! c) = 2 \<and>
       length (map (natureGate (natureGate_p P)) xs ! b ! c) = 2"
      by (simp add: artGate_def natureGate_def subGate_row_length)
  qed simp_all
  also have "\<dots> = Some (map (\<lambda>x. if gate0VGG cfg (gate0_p P) x ! 0 > gate0VGG cfg (gate0_p P) x ! 1
                     then blend_row (baseVGG cfg (base_p P) x) (artificialVGG cfg (artificial_p P) x)
                            (artGate (artGate_p P) x)
                     else blend_row (baseVGG cfg (base_p P) x) (naturalVGG cfg (natural_p P) x)
                            (natureGate (natureGate_p P) x)) xs)"
    by (auto intro!: nth_equalityI)
  finally show ?thesis .
qed

lemma subGateLambda_single:
  assumes "length base = n" "length expert = n" "length subgate = n"
    and "\<And>c. c < n \<Longrightarrow> length (subgate ! c) = 2"
  shows "subGateLambda [base] [expert] [subgate] = Some [blend_row base expert subgate]"
proof -
  have "subGateLambda [base] [expert] [subgate] =
     Some (map (\<lambda>b. blend_row ([base] ! b) ([expert] ! b) ([subgate] ! b)) [0..<1])"
    by (rule subGateLambda_rows[where n = n]) (use assms in auto)
  then show ?thesis by simp
qed

lemma blend_row_nth:
  "c < length base \<Longrightarrow>
   blend_row base expert subgate ! c = base ! c * subgate ! c ! 0 + expert ! c * subgate ! c ! 1"
  by (simp add: blend_row_def)


section \<open>Replacing one sub-network\<close>






















section \<open>Routing at the first gating level\<close>



section \<open>Blending at the second gating level\<close>

text \<open>
  C2. In the prediction of every image, for every class index \<open>c\<close> in 0..9, the
  value is \<open>base[c] * subgate[c, 0] + expert[c] * subgate[c, 1]\<close>, with the expert
  and the sub-gate of the branch the level-1 gate selects. Each sub-gate is a tensor of
  10 rows of 2 weights: entry \<open>[c, k]\<close> is unit \<open>2 c + k\<close> of the softmax over the
  20 units of the sub-gate network's last Dense layer (the Reshape to (10, 2)).
\<close>

theorem soft_blending:
  "\<exists>out. mixture cfg P xs = Some out \<and>
     (\<forall>b<length xs. \<forall>c<10.
        out ! b ! c =
          (if gate0VGG cfg (gate0_p P) (xs ! b) ! 0 > gate0VGG cfg (gate0_p P) (xs ! b) ! 1
           then baseVGG cfg (base_p P) (xs ! b) ! c * artGate (artGate_p P) (xs ! b) ! c ! 0 +
                artificialVGG cfg (artificial_p P) (xs ! b) ! c * artGate (artGate_p P) (xs ! b) ! c ! 1
           else baseVGG cfg (base_p P) (xs ! b) ! c * natureGate (natureGate_p P) (xs ! b) ! c ! 0 +
                naturalVGG cfg (natural_p P) (xs ! b) ! c * natureGate (natureGate_p P) (xs ! b) ! c ! 1) \<and>
        length (artGate (artGate_p P) (xs ! b)) = 10 \<and>
        length (natureGate (natureGate_p P) (xs ! b)) = 10 \<and>
        length (artGate (artGate_p P) (xs ! b) ! c) = 2 \<and>
        length (natureGate (natureGate_p P) (xs ! b) ! c) = 2 \<and>
        (\<forall>k<2.
           artGate (artGate_p P) (xs ! b) ! c ! k =
             softmax (Dense 20 (top_kernel (artGate_p P)) (top_bias (artGate_p P))
               (below (artGate_p P) (xs ! b))) ! (c * 2 + k) \<and>
           natureGate (natureGate_p P) (xs ! b) ! c ! k =
             softmax (Dense 20 (top_kernel (natureGate_p P)) (top_bias (natureGate_p P))
               (below (natureGate_p P) (xs ! b))) ! (c * 2 + k)))"
proof -
  have entry: "subGate p x 10 2 ! c ! k =
      softmax (Dense 20 (top_kernel p) (top_bias p) (below p x)) ! (c * 2 + k)"
    if "c < 10" "k < 2" for p :: "'a net" and x c k
    using subGate_entry[of c 10 k 2 p x] that by simp
  have rowlen: "length (subGate p x 10 2 ! c) = 2" if "c < 10" for p :: "'a net" and x c
    using subGate_row_length[of c 10 p x 2] that by simp
  have gates: "\<forall>c<10.
        length (artGate p x) = 10 \<and> length (natureGate q x) = 10 \<and>
        length (artGate p x ! c) = 2 \<and> length (natureGate q x ! c) = 2 \<and>
        (\<forall>k<2.
           artGate p x ! c ! k =
             softmax (Dense 20 (top_kernel p) (top_bias p) (below p x)) ! (c * 2 + k) \<and>
           natureGate q x ! c ! k =
             softmax (Dense 20 (top_kernel q) (top_bias q) (below q x)) ! (c * 2 + k))"
    for p q :: "'a net" and x
    unfolding artGate_def natureGate_def orig_classes_def
    by (simp add: entry rowlen length_subGate)
  have rows: "\<forall>b<length xs. \<forall>c<10.
      (map (\<lambda>x. if gate0VGG cfg (gate0_p P) x ! 0 > gate0VGG cfg (gate0_p P) x ! 1
                     then blend_row (baseVGG cfg (base_p P) x) (artificialVGG cfg (artificial_p P) x)
                            (artGate (artGate_p P) x)
                     else blend_row (baseVGG cfg (base_p P) x) (naturalVGG cfg (natural_p P) x)
                            (natureGate (natureGate_p P) x)) xs) ! b ! c =
          (if gate0VGG cfg (gate0_p P) (xs ! b) ! 0 > gate0VGG cfg (gate0_p P) (xs ! b) ! 1
           then baseVGG cfg (base_p P) (xs ! b) ! c * artGate (artGate_p P) (xs ! b) ! c ! 0 +
                artificialVGG cfg (artificial_p P) (xs ! b) ! c * artGate (artGate_p P) (xs ! b) ! c ! 1
           else baseVGG cfg (base_p P) (xs ! b) ! c * natureGate (natureGate_p P) (xs ! b) ! c ! 0 +
                naturalVGG cfg (natural_p P) (xs ! b) ! c * natureGate (natureGate_p P) (xs ! b) ! c ! 1)"
    by (simp add: blend_row_nth length_baseVGG orig_classes_def)
  show ?thesis
    unfolding mixture_rows using rows gates by blast
qed

theorem soft_blending_witness:
  "let g = \<lparr>below = (\<lambda>x::real. [x]), top_kernel = (\<lambda>i j. if j = 0 then 1 else 0),
            top_bias = (\<lambda>j. 0)\<rparr>;
       z = \<lparr>below = (\<lambda>x::real. []), top_kernel = (\<lambda>i j. 0), top_bias = (\<lambda>j. 0)\<rparr>;
       P = \<lparr>base_p = z, gate0_p = g, artificial_p = z, natural_p = z, artGate_p = z,
            natureGate_p = z\<rparr>
   in (0::nat) < length [ln 2 :: real] \<and> (3::nat) < 10 \<and> (1::nat) < 2 \<and>
      (\<exists>out. mixture cell9 P [ln 2] = Some out \<and>
         out ! 0 ! 3 = baseVGG cell9 z (ln 2) ! 3 * artGate z (ln 2) ! 3 ! 0 +
                       artificialVGG cell9 z (ln 2) ! 3 * artGate z (ln 2) ! 3 ! 1 \<and>
         out ! 0 ! 3 = 1 / 100 \<and>
         artGate z (ln 2) ! 3 ! 1 =
           softmax (Dense 20 (top_kernel z) (top_bias z) (below z (ln 2))) ! 7 \<and>
         artGate z (ln 2) ! 3 ! 1 = 1 / 20)"
proof -
  let ?g = "\<lparr>below = (\<lambda>x::real. [x]), top_kernel = (\<lambda>i j. if j = 0 then 1 else 0),
            top_bias = (\<lambda>j. 0)\<rparr> :: real net"
  let ?z = "\<lparr>below = (\<lambda>x::real. []), top_kernel = (\<lambda>i j. 0), top_bias = (\<lambda>j. 0)\<rparr> :: real net"
  let ?P = "\<lparr>base_p = ?z, gate0_p = ?g, artificial_p = ?z, natural_p = ?z, artGate_p = ?z,
            natureGate_p = ?z\<rparr>"
  let ?xs = "[ln 2] :: real list"
  have G0: "gate0VGG cell9 ?g (ln 2) ! 0 > gate0VGG cell9 ?g (ln 2) ! 1"
    by (simp add: gate0VGG_def simpleVGG_def fatVGG_def softmax_def Dense_def upt_rec
        gate0_classes_def)
  have sm: "softmax (Dense 20 (top_kernel ?z) (top_bias ?z) (below ?z (ln 2))) ! 7 = 1 / 20"
    by (simp add: softmax_def Dense_def upt_rec)
  have sm6: "softmax (Dense 20 (top_kernel ?z) (top_bias ?z) (below ?z (ln 2))) ! 6 = 1 / 20"
    by (simp add: softmax_def Dense_def upt_rec)
  have b3: "baseVGG cell9 ?z (ln 2) ! 3 = 1 / 10"
    by (simp add: baseVGG_def simpleVGG_def fatVGG_def softmax_def Dense_def upt_rec
        orig_classes_def)
  have a3: "artificialVGG cell9 ?z (ln 2) ! 3 = 1 / 10"
    by (simp add: artificialVGG_def simpleVGG_def fatVGG_def softmax_def Dense_def upt_rec
        orig_classes_def)
  from soft_blending[of cell9 ?P ?xs] obtain out where
    m: "mixture cell9 ?P ?xs = Some out"
    and r: "\<forall>b<length ?xs. \<forall>c<10.
        out ! b ! c =
          (if gate0VGG cell9 (gate0_p ?P) (?xs ! b) ! 0 > gate0VGG cell9 (gate0_p ?P) (?xs ! b) ! 1
           then baseVGG cell9 (base_p ?P) (?xs ! b) ! c * artGate (artGate_p ?P) (?xs ! b) ! c ! 0 +
                artificialVGG cell9 (artificial_p ?P) (?xs ! b) ! c * artGate (artGate_p ?P) (?xs ! b) ! c ! 1
           else baseVGG cell9 (base_p ?P) (?xs ! b) ! c * natureGate (natureGate_p ?P) (?xs ! b) ! c ! 0 +
                naturalVGG cell9 (natural_p ?P) (?xs ! b) ! c * natureGate (natureGate_p ?P) (?xs ! b) ! c ! 1) \<and>
        length (artGate (artGate_p ?P) (?xs ! b)) = 10 \<and>
        length (natureGate (natureGate_p ?P) (?xs ! b)) = 10 \<and>
        length (artGate (artGate_p ?P) (?xs ! b) ! c) = 2 \<and>
        length (natureGate (natureGate_p ?P) (?xs ! b) ! c) = 2 \<and>
        (\<forall>k<2.
           artGate (artGate_p ?P) (?xs ! b) ! c ! k =
             softmax (Dense 20 (top_kernel (artGate_p ?P)) (top_bias (artGate_p ?P))
               (below (artGate_p ?P) (?xs ! b))) ! (c * 2 + k) \<and>
           natureGate (natureGate_p ?P) (?xs ! b) ! c ! k =
             softmax (Dense 20 (top_kernel (natureGate_p ?P)) (top_bias (natureGate_p ?P))
               (below (natureGate_p ?P) (?xs ! b))) ! (c * 2 + k))"
    by blast
  have r03: "out ! 0 ! 3 = baseVGG cell9 ?z (ln 2) ! 3 * artGate ?z (ln 2) ! 3 ! 0 +
                       artificialVGG cell9 ?z (ln 2) ! 3 * artGate ?z (ln 2) ! 3 ! 1"
    using r[rule_format, of 0 3] G0 by simp
  have e1: "artGate ?z (ln 2) ! 3 ! 1 =
           softmax (Dense 20 (top_kernel ?z) (top_bias ?z) (below ?z (ln 2))) ! 7"
    using r[rule_format, of 0 3] by simp
  have e0: "artGate ?z (ln 2) ! 3 ! 0 =
           softmax (Dense 20 (top_kernel ?z) (top_bias ?z) (below ?z (ln 2))) ! 6"
    using r[rule_format, of 0 3] by simp
  have v: "out ! 0 ! 3 = 1 / 100"
    unfolding r03 e0 e1 sm sm6 b3 a3 by simp
  have v1: "artGate ?z (ln 2) ! 3 ! 1 = 1 / 20"
    unfolding e1 sm by simp
  show ?thesis
    unfolding Let_def using m r03 v e1 v1 by simp
qed

section \<open>Widths of the sub-networks\<close>

text \<open>
  C10. The baseline and both experts end in a softmax over \<open>orig_classes\<close> = 10 units,
  whatever the flags of cell 9, so each gives a vector of 10 class values and
  \<open>subGateLambda\<close> is defined on them: it blends position \<open>c\<close> of the expert with
  position \<open>c\<close> of the baseline, for the ten positions. An expert built with as many
  outputs as it has training classes (4 or 6) would not fit: the Lambda layer fails on it.
\<close>

theorem experts_full_width:
  "orig_classes = 10 \<and>
   length (baseVGG cfg pb x) = orig_classes \<and>
   length (artificialVGG cfg pa x) = orig_classes \<and>
   length (naturalVGG cfg pn x) = orig_classes \<and>
   subGateLambda [baseVGG cfg pb x] [artificialVGG cfg pa x] [artGate ga x] =
     Some [map (\<lambda>c. baseVGG cfg pb x ! c * artGate ga x ! c ! 0 +
                    artificialVGG cfg pa x ! c * artGate ga x ! c ! 1) [0..<orig_classes]] \<and>
   subGateLambda [baseVGG cfg pb x] [naturalVGG cfg pn x] [natureGate gn x] =
     Some [map (\<lambda>c. baseVGG cfg pb x ! c * natureGate gn x ! c ! 0 +
                    naturalVGG cfg pn x ! c * natureGate gn x ! c ! 1) [0..<orig_classes]] \<and>
   subGateLambda [baseVGG cfg pb x] [simpleVGG pa x 4] [artGate ga x] = None \<and>
   subGateLambda [baseVGG cfg pb x] [simpleVGG pn x 6] [natureGate gn x] = None"
proof -
  have art: "subGateLambda [baseVGG cfg pb x] [artificialVGG cfg pa x] [artGate ga x] =
      Some [blend_row (baseVGG cfg pb x) (artificialVGG cfg pa x) (artGate ga x)]"
    by (rule subGateLambda_single[where n = orig_classes])
       (simp_all add: length_baseVGG length_artificialVGG artGate_def length_subGate
          subGate_row_length)
  have nat: "subGateLambda [baseVGG cfg pb x] [naturalVGG cfg pn x] [natureGate gn x] =
      Some [blend_row (baseVGG cfg pb x) (naturalVGG cfg pn x) (natureGate gn x)]"
    by (rule subGateLambda_single[where n = orig_classes])
       (simp_all add: length_baseVGG length_naturalVGG natureGate_def length_subGate
          subGate_row_length)
  have s0: "slice_last [subGate g x orig_classes 2] 0 =
      Some (map (map (\<lambda>v. v ! 0)) [subGate g x orig_classes 2])" for g :: "'a net"
    by (rule slice_last_Some) (simp add: length_subGate subGate_row_length)
  have s1: "slice_last [subGate g x orig_classes 2] 1 =
      Some (map (map (\<lambda>v. v ! 1)) [subGate g x orig_classes 2])" for g :: "'a net"
    by (rule slice_last_Some) (simp add: length_subGate subGate_row_length)
  have m0: "mul2 [baseVGG cfg pb x] (map (map (\<lambda>v. v ! 0)) [subGate g x orig_classes 2]) =
      Some (map2 (map2 (*)) [baseVGG cfg pb x] (map (map (\<lambda>v. v ! 0)) [subGate g x orig_classes 2]))"
    for g :: "'a net"
    by (simp add: mul2_def length_baseVGG length_subGate)
  have bad: "mul2 [simpleVGG p x k] (map (map (\<lambda>v. v ! 1)) [subGate g x orig_classes 2]) = None"
    if "k \<noteq> 10" for p g :: "'a net" and k
    using that by (simp add: mul2_def length_simpleVGG length_subGate orig_classes_def)
  have none: "subGateLambda [baseVGG cfg pb x] [simpleVGG p x k] [subGate g x orig_classes 2] = None"
    if "k \<noteq> 10" for p g :: "'a net" and k
    by (simp only: subGateLambda_def s0 s1 m0 bad[OF that] Option.bind.simps)
  have oc: "orig_classes = 10"
    by (simp add: orig_classes_def)
  have a: "subGateLambda [baseVGG cfg pb x] [artificialVGG cfg pa x] [artGate ga x] =
     Some [map (\<lambda>c. baseVGG cfg pb x ! c * artGate ga x ! c ! 0 +
                    artificialVGG cfg pa x ! c * artGate ga x ! c ! 1) [0..<orig_classes]]"
    by (simp add: art blend_row_def length_baseVGG)
  have n: "subGateLambda [baseVGG cfg pb x] [naturalVGG cfg pn x] [natureGate gn x] =
     Some [map (\<lambda>c. baseVGG cfg pb x ! c * natureGate gn x ! c ! 0 +
                    naturalVGG cfg pn x ! c * natureGate gn x ! c ! 1) [0..<orig_classes]]"
    by (simp add: nat blend_row_def length_baseVGG)
  have b4: "subGateLambda [baseVGG cfg pb x] [simpleVGG pa x 4] [artGate ga x] = None"
    unfolding artGate_def by (rule none) simp
  have b6: "subGateLambda [baseVGG cfg pb x] [simpleVGG pn x 6] [natureGate gn x] = None"
    unfolding natureGate_def by (rule none) simp
  show ?thesis
    using oc a n b4 b6 length_baseVGG[of cfg pb x] length_artificialVGG[of cfg pa x]
      length_naturalVGG[of cfg pn x]
    by blast
qed

section \<open>The mixture combines the four sub-models\<close>




section \<open>The index lists of the two domains\<close>

lemma label_cases: "(v::nat) \<le> 9 \<Longrightarrow> v \<in> {0, 1, 8, 9} \<or> v \<in> {2, 3, 4, 5, 6, 7}"
  by (simp) arith

text \<open>
  C9. When every label lies in 0..9, the artificial and the natural index lists have no
  index in common and together hold every index of the label vector, for the training
  labels (\<open>artTrain\<close>, \<open>natureTrain\<close>) and for the test labels (\<open>artTest\<close>,
  \<open>natureTest\<close>).
\<close>

theorem index_lists_partition:
  assumes "\<forall>v\<in>set ytr. v \<le> 9" and "\<forall>v\<in>set yte. v \<le> 9"
  shows "set (artTrain ytr) \<inter> set (natureTrain ytr) = {} \<and>
         set (artTrain ytr) \<union> set (natureTrain ytr) = {0..<length ytr} \<and>
         set (artTest yte) \<inter> set (natureTest yte) = {} \<and>
         set (artTest yte) \<union> set (natureTest yte) = {0..<length yte}"
proof -
  have disj: "{0, 1, 8, 9} \<inter> {2, 3, 4, 5, 6, 7} = ({} :: nat set)"
    by simp
  have part: "set (filter (\<lambda>i. y ! i \<in> A) [0..<length y]) \<inter>
        set (filter (\<lambda>i. y ! i \<in> N) [0..<length y]) = {} \<and>
      set (filter (\<lambda>i. y ! i \<in> A) [0..<length y]) \<union>
        set (filter (\<lambda>i. y ! i \<in> N) [0..<length y]) = {0..<length y}"
    if "A \<inter> N = {}" and "\<forall>v\<in>set y. v \<in> A \<or> v \<in> N" for y :: "nat list" and A N
    using that by auto
  have cover: "\<forall>v\<in>set y. v \<in> {0, 1, 8, 9} \<or> v \<in> {2, 3, 4, 5, 6, 7}"
    if "\<forall>v\<in>set y. v \<le> 9" for y :: "nat list"
    using that label_cases by blast
  have sets: "set [0, 1, 8, 9 :: nat] = {0, 1, 8, 9}" "set [2, 3, 4, 5, 6, 7 :: nat] = {2, 3, 4, 5, 6, 7}"
    by simp_all
  show ?thesis
    unfolding artTrain_def natureTrain_def artTest_def natureTest_def sets
    using part[OF disj cover[OF assms(1)]] part[OF disj cover[OF assms(2)]]
    by blast
qed

theorem index_lists_partition_witness:
  "artTrain [3, 0, 9, 5] = [1, 2] \<and> natureTrain [3, 0, 9, 5] = [0, 3] \<and>
   set (artTrain [3, 0, 9, 5]) \<inter> set (natureTrain [3, 0, 9, 5]) = {} \<and>
   set (artTrain [3, 0, 9, 5]) \<union> set (natureTrain [3, 0, 9, 5]) = {0..<length [3, 0, 9, 5 :: nat]} \<and>
   set (artTest [8, 2]) \<inter> set (natureTest [8, 2]) = {} \<and>
   set (artTest [8, 2]) \<union> set (natureTest [8, 2]) = {0..<length [8, 2 :: nat]}"
proof -
  have h1: "\<forall>v\<in>set [3, 0, 9, 5 :: nat]. v \<le> 9" by simp
  have h2: "\<forall>v\<in>set [8, 2 :: nat]. v \<le> 9" by simp
  have a: "artTrain [3, 0, 9, 5] = [1, 2]"
    by (simp add: artTrain_def upt_rec)
  have n: "natureTrain [3, 0, 9, 5] = [0, 3]"
    by (simp add: natureTrain_def upt_rec)
  show ?thesis
    using index_lists_partition[OF h1 h2] a n by blast
qed


section \<open>The newest checkpoint\<close>






section \<open>Layer names\<close>

lemma names17:
  "layer_names name 17 = map (\<lambda>d. name @ d)
     [''0'', ''1'', ''2'', ''3'', ''4'', ''5'', ''6'', ''7'', ''8'', ''9'', ''10'', ''11'',
      ''12'', ''13'', ''14'', ''15'', ''16'']"
  by (simp add: layer_names_def str.simps upt_rec)

lemma names12:
  "layer_names name 12 = map (\<lambda>d. name @ d)
     [''0'', ''1'', ''2'', ''3'', ''4'', ''5'', ''6'', ''7'', ''8'', ''9'', ''10'', ''11'']"
  by (simp add: layer_names_def str.simps upt_rec)

lemma names5:
  "layer_names name 5 = map (\<lambda>d. name @ d) [''0'', ''1'', ''2'', ''3'', ''4'']"
  by (simp add: layer_names_def str.simps upt_rec)

lemma disjoint_names:
  "set (layers cfg BaseModel @ layers cfg Gate0Model @ layers cfg ArtificialModel
        @ layers cfg NaturalModel) \<inter>
   set (subGate_layers ''artExpertGate'' @ subGate_layers ''natureExpertGate''
        @ [''lambda_1'']) = {}"
  by (simp add: base_layers_def gate0_layers_def artificial_layers_def natural_layers_def
      simpleVGG_layers_def fatVGG_layers_def subGate_layers_def names17 names12 names5)

lemma mixture_layers:
  "set (layers cfg MixtureModel) =
   set (layers cfg BaseModel @ layers cfg Gate0Model @ layers cfg ArtificialModel
        @ layers cfg NaturalModel) \<union>
   set (subGate_layers ''artExpertGate'' @ subGate_layers ''natureExpertGate''
        @ [''lambda_1''])"
  by auto

section \<open>What each operation leaves alone\<close>

lemma not_in_filter: "\<not> P l \<Longrightarrow> l \<notin> set (filter P xs)"
  by simp

lemma in_filter: "l \<in> set (filter P xs) \<longleftrightarrow> l \<in> set xs \<and> P l"
  by simp

lemma freeze_trainable: "trainable (freeze ns s) l = (l \<notin> set ns \<and> trainable s l)"
  unfolding freeze_def by (induction ns arbitrary: s) auto

lemma freeze_rest:
  "weights (freeze ns s) = weights s" "collected (freeze ns s) = collected s"
  "disk (freeze ns s) = disk s" "history (freeze ns s) = history s"
  unfolding freeze_def by (induction ns arbitrary: s) auto

lemma create_trainable: "trainable (create K ns s) l = (l \<in> set ns \<or> trainable s l)"
  unfolding create_def by (induction ns arbitrary: s) auto

lemma create_rest:
  "collected (create K ns s) = collected s"
  "disk (create K ns s) = disk s" "history (create K ns s) = history s"
  unfolding create_def by (induction ns arbitrary: s) auto

lemma compile_rest:
  "trainable (compile cfg m s) = trainable s" "weights (compile cfg m s) = weights s"
  "disk (compile cfg m s) = disk s" "history (compile cfg m s) = history s"
  by (simp_all add: compile_def)

lemma compile_collected:
  "collected (compile cfg m s) m' =
     (if m' = m then Some (filter (trainable s) (layers cfg m)) else collected s m')"
  by (simp add: compile_def)

lemma reload_rest:
  assumes "reload cfg m d s = Some s'"
  shows "trainable s' = trainable s" "collected s' = collected s" "disk s' = disk s"
    "history s' = history s"
  using assms by (auto simp: reload_def split: option.splits)

lemma fit_rest:
  assumes "fit K m d x y b e v s = Some s'"
  shows "trainable s' = trainable s" "collected s' = collected s"
    "history s' = history s @ [FitBegin m x y, FitEnd m]"
  using assms by (auto simp: fit_def Let_def split: option.splits if_splits)

lemma fit_frame:
  assumes "fit K m d x y b e v s = Some s'" and "collected s m = Some tw" and "l \<notin> set tw"
  shows "weights s' l = weights s l"
  using assms by (auto simp: fit_def Let_def split: option.splits if_splits)

section \<open>Freezing before the mixture is trained\<close>

text \<open>
  C4. From any state, cell 51 leaves every layer of the baseline, the level-1 gate and the
  two experts non-trainable. When the mixture is then built and compiled (cells 54 to 59),
  the layers of the mixture that are trainable are the layers of the two sub-gate networks
  and the final Lambda layer, and no others. Whatever cell 61 loads, training the mixture
  in cell 62 leaves the weights of every layer of the four sub-models as they were before
  the call, and the layers stay non-trainable.
\<close>

theorem frozen_submodels:
  fixes s :: "'x state"
  shows
  "let s1 = cell51 cfg s;
       s3 = cell59 cfg (cells54_58 K s1);
       four = layers cfg BaseModel @ layers cfg Gate0Model @ layers cfg ArtificialModel
                @ layers cfg NaturalModel
   in (\<forall>l\<in>set four. \<not> trainable s1 l) \<and>
      {l \<in> set (layers cfg MixtureModel). trainable s3 l} =
        set (subGate_layers ''artExpertGate'') \<union> set (subGate_layers ''natureExpertGate'')
          \<union> {''lambda_1''} \<and>
      (\<forall>s4 s5. cell61 K cfg s3 = Some s4 \<longrightarrow> cell62 K cfg d y0 yt0 s4 = Some s5 \<longrightarrow>
         (\<forall>l\<in>set four. weights s5 l = weights s4 l \<and> \<not> trainable s5 l))"
proof -
  let ?four = "layers cfg BaseModel @ layers cfg Gate0Model @ layers cfg ArtificialModel
                @ layers cfg NaturalModel"
  let ?G = "subGate_layers ''artExpertGate'' @ subGate_layers ''natureExpertGate''
              @ [''lambda_1'']"
  let ?s1 = "cell51 cfg s"
  let ?s2 = "cells54_58 K ?s1"
  let ?s3 = "cell59 cfg ?s2"
  have t1: "trainable ?s1 l = (l \<notin> set ?four \<and> trainable s l)" for l
    by (auto simp: cell51_def freeze_trainable)
  have t2: "trainable ?s2 l = (l \<in> set ?G \<or> trainable ?s1 l)" for l
    unfolding cells54_58_def by (rule create_trainable)
  have t3: "trainable ?s3 = trainable ?s2"
    by (simp add: cell59_def compile_rest)
  have dis: "l \<in> set ?four \<Longrightarrow> l \<notin> set ?G" for l
    using disjoint_names[of cfg] by blast
  have frozen1: "\<forall>l\<in>set ?four. \<not> trainable ?s1 l"
    by (simp add: t1)
  have tr3: "trainable ?s3 l = (l \<in> set ?G)" if "l \<in> set (layers cfg MixtureModel)" for l
    using that dis[of l] unfolding t3 t2 t1 mixture_layers by blast
  have only: "{l \<in> set (layers cfg MixtureModel). trainable ?s3 l} = set ?G"
    using tr3 mixture_layers[of cfg] by blast
  have col3: "collected ?s3 MixtureModel = Some (filter (trainable ?s2) (layers cfg MixtureModel))"
    by (simp add: cell59_def compile_collected)
  have frame: "\<forall>l\<in>set ?four. weights s5 l = weights s4 l \<and> \<not> trainable s5 l"
    if c61: "cell61 K cfg ?s3 = Some s4" and c62: "cell62 K cfg d y0 yt0 s4 = Some s5" for s4 s5
  proof
    fix l assume l: "l \<in> set ?four"
    have tr4: "trainable s4 = trainable ?s3" and col4: "collected s4 = collected ?s3"
      using c61 unfolding cell61_def by (auto dest: reload_rest)
    have tr5: "trainable s5 = trainable s4"
      using c62 unfolding cell62_def by (rule fit_rest)
    have lm: "l \<in> set (layers cfg MixtureModel)"
      using l mixture_layers[of cfg] by blast
    have nt: "\<not> trainable ?s3 l"
      using tr3[OF lm] dis[OF l] by simp
    then have "\<not> trainable ?s2 l"
      unfolding t3 .
    then have "l \<notin> set (filter (trainable ?s2) (layers cfg MixtureModel))"
      by (rule not_in_filter)
    with c62 col3 col4 have "weights s5 l = weights s4 l"
      unfolding cell62_def by (intro fit_frame) auto
    then show "weights s5 l = weights s4 l \<and> \<not> trainable s5 l"
      using nt tr4 tr5 by simp
  qed
  have G: "set ?G = set (subGate_layers ''artExpertGate'') \<union> set (subGate_layers ''natureExpertGate'')
          \<union> {''lambda_1''}"
    by auto
  show ?thesis
    unfolding Let_def using frozen1 only frame unfolding G by blast
qed

section \<open>Selecting rows by a label set\<close>

lemma zip_as_map:
  "zip xs ys = map (\<lambda>i. (xs ! i, ys ! i)) [0..<min (length xs) (length ys)]"
  by (rule nth_equalityI) simp_all

lemma rows_of_labels:
  "map (\<lambda>i. y ! i) (filter (\<lambda>i. P (y ! i)) [0..<length y]) = filter P y"
proof -
  have "filter P (map (\<lambda>i. y ! i) [0..<length y]) =
      map (\<lambda>i. y ! i) (filter (P \<circ> (\<lambda>i. y ! i)) [0..<length y])"
    by (rule filter_map)
  then show ?thesis
    by (simp add: map_nth comp_def)
qed

lemma rows_of_examples:
  assumes "list_all (\<lambda>i. i < length x) (filter (\<lambda>i. P (y ! i)) [0..<length y])"
  shows "map (\<lambda>i. x ! i) (filter (\<lambda>i. P (y ! i)) [0..<length y]) =
         map fst (filter (\<lambda>(a, b). P b) (zip x y))"
proof -
  let ?n = "min (length x) (length y)"
  let ?Q = "\<lambda>i. P (y ! i)"
  have split: "[0..<length y] = [0..<?n] @ [?n..<length y]"
    by (metis min.cobounded2 upt_add_eq_append zero_le le_add_diff_inverse)
  have none: "filter ?Q [?n..<length y] = []"
  proof (rule ccontr)
    assume "filter ?Q [?n..<length y] \<noteq> []"
    then obtain i where i: "i \<in> set (filter ?Q [?n..<length y])"
      by (meson last_in_set)
    then have "i \<in> set (filter ?Q [0..<length y])" by auto
    with assms have "i < length x" by (simp add: list_all_iff)
    with i show False by auto
  qed
  have "filter ?Q [0..<length y] = filter ?Q [0..<?n]"
    by (subst split) (simp add: none)
  moreover have "map fst (filter (\<lambda>(a, b). P b) (zip x y)) =
      map (\<lambda>i. x ! i) (filter ?Q [0..<?n])"
    by (simp add: zip_as_map filter_map comp_def)
  ultimately show ?thesis by simp
qed

lemma take_rows_labels:
  "take_rows y (filter (\<lambda>i. P (y ! i)) [0..<length y]) = Some (filter P y)"
  by (simp add: take_rows_def list_all_iff rows_of_labels)

lemma take_rows_examples:
  assumes "take_rows x (filter (\<lambda>i. P (y ! i)) [0..<length y]) = Some xa"
  shows "xa = map fst (filter (\<lambda>(a, b). P b) (zip x y))"
proof -
  from assms have ok: "list_all (\<lambda>i. i < length x) (filter (\<lambda>i. P (y ! i)) [0..<length y])"
    and xa: "xa = map (\<lambda>i. x ! i) (filter (\<lambda>i. P (y ! i)) [0..<length y])"
    by (auto simp: take_rows_def split: if_splits)
  show ?thesis
    unfolding xa by (rule rows_of_examples[OF ok])
qed

section \<open>The calls of fit, in order\<close>

lemma cells22_25_history:
  assumes "cells22_25 K cfg d y0 yt0 s = Some s'"
  shows "history s' = history s @ [FitBegin BaseModel (x_train d) y0, FitEnd BaseModel]"
  using assms
  by (auto simp: cells22_25_def Let_def compile_rest split: Option.bind_splits
      dest!: reload_rest(4) fit_rest(3))

lemma cells27_31_history:
  assumes "cells27_31 K cfg d s = Some s'"
  shows "\<exists>yg. y_trainG0 (y_train d) = Some yg \<and>
     history s' = history s @ [FitBegin Gate0Model (x_train d) yg, FitEnd Gate0Model]"
  using assms
  by (auto simp: cells27_31_def Let_def compile_rest split: Option.bind_splits
      dest!: reload_rest(4) fit_rest(3))

lemma cells33_40_history:
  assumes "cells33_40 K cfg d s = Some s'"
  shows "\<exists>xa la ya. take_rows (x_train d) (artTrain (y_train d)) = Some xa \<and>
     take_rows (y_train d) (artTrain (y_train d)) = Some la \<and>
     to_categorical la orig_classes = Some ya \<and>
     history s' = history s @ [FitBegin ArtificialModel xa ya, FitEnd ArtificialModel]"
  using assms
  by (auto simp: cells33_40_def Let_def compile_rest split: Option.bind_splits
      dest!: reload_rest(4) fit_rest(3))

lemma cells42_47_history:
  assumes "cells42_47 K cfg d s = Some s'"
  shows "\<exists>xn ln yn. take_rows (x_train d) (natureTrain (y_train d)) = Some xn \<and>
     take_rows (y_train d) (natureTrain (y_train d)) = Some ln \<and>
     to_categorical ln orig_classes = Some yn \<and>
     history s' = history s @ [FitBegin NaturalModel xn yn, FitEnd NaturalModel]"
  using assms
  by (auto simp: cells42_47_def Let_def compile_rest split: Option.bind_splits
      dest!: reload_rest(4) fit_rest(3))

lemma cells51_61_history:
  assumes "cell61 K cfg (cell59 cfg (cells54_58 K (cell51 cfg s))) = Some s'"
  shows "history s' = history s"
proof -
  from assms have "history s' = history (cell59 cfg (cells54_58 K (cell51 cfg s)))"
    unfolding cell61_def by (auto dest: reload_rest(4))
  then show ?thesis
    by (simp add: cell59_def cells54_58_def cell51_def compile_rest create_rest freeze_rest)
qed

lemma notebook_history:
  assumes "notebook K cfg (fresh_kernel fs) = Some s"
  shows "\<exists>y0 yg xa la ya xn ln yn.
     to_categorical (y_train (cells12_13 K cfg)) orig_classes = Some y0 \<and>
     y_trainG0 (y_train (cells12_13 K cfg)) = Some yg \<and>
     take_rows (x_train (cells12_13 K cfg)) (artTrain (y_train (cells12_13 K cfg))) = Some xa \<and>
     take_rows (y_train (cells12_13 K cfg)) (artTrain (y_train (cells12_13 K cfg))) = Some la \<and>
     to_categorical la orig_classes = Some ya \<and>
     take_rows (x_train (cells12_13 K cfg)) (natureTrain (y_train (cells12_13 K cfg))) = Some xn \<and>
     take_rows (y_train (cells12_13 K cfg)) (natureTrain (y_train (cells12_13 K cfg))) = Some ln \<and>
     to_categorical ln orig_classes = Some yn \<and>
     history s =
       [FitBegin BaseModel (x_train (cells12_13 K cfg)) y0, FitEnd BaseModel,
        FitBegin Gate0Model (x_train (cells12_13 K cfg)) yg, FitEnd Gate0Model,
        FitBegin ArtificialModel xa ya, FitEnd ArtificialModel,
        FitBegin NaturalModel xn yn, FitEnd NaturalModel,
        FitBegin MixtureModel (x_train (cells12_13 K cfg)) y0, FitEnd MixtureModel]"
proof -
  let ?d = "cells12_13 K cfg"
  let ?s1 = "cells16_19 K cfg (cell10 K (fresh_kernel fs))"
  from assms obtain y0 yt0 s2 s3 s4 s5 s6 where
    y0: "to_categorical (y_train ?d) orig_classes = Some y0"
    and c2: "cells22_25 K cfg ?d y0 yt0 ?s1 = Some s2"
    and c3: "cells27_31 K cfg ?d s2 = Some s3"
    and c4: "cells33_40 K cfg ?d s3 = Some s4"
    and c5: "cells42_47 K cfg ?d s4 = Some s5"
    and c6: "cell61 K cfg (cell59 cfg (cells54_58 K (cell51 cfg s5))) = Some s6"
    and c7: "cell62 K cfg ?d y0 yt0 s6 = Some s"
    by (auto simp: notebook_def Let_def split: Option.bind_splits)
  have h1: "history ?s1 = []"
    by (simp add: cells16_19_def create_rest cell10_def fresh_kernel_def)
  note h2 = cells22_25_history[OF c2]
  from cells27_31_history[OF c3] obtain yg where
    yg: "y_trainG0 (y_train ?d) = Some yg"
    and h3: "history s3 = history s2 @ [FitBegin Gate0Model (x_train ?d) yg, FitEnd Gate0Model]"
    by blast
  from cells33_40_history[OF c4] obtain xa la ya where
    a: "take_rows (x_train ?d) (artTrain (y_train ?d)) = Some xa"
      "take_rows (y_train ?d) (artTrain (y_train ?d)) = Some la"
      "to_categorical la orig_classes = Some ya"
    and h4: "history s4 = history s3 @ [FitBegin ArtificialModel xa ya, FitEnd ArtificialModel]"
    by blast
  from cells42_47_history[OF c5] obtain xn ln yn where
    n: "take_rows (x_train ?d) (natureTrain (y_train ?d)) = Some xn"
      "take_rows (y_train ?d) (natureTrain (y_train ?d)) = Some ln"
      "to_categorical ln orig_classes = Some yn"
    and h5: "history s5 = history s4 @ [FitBegin NaturalModel xn yn, FitEnd NaturalModel]"
    by blast
  note h6 = cells51_61_history[OF c6]
  have h7: "history s = history s6 @ [FitBegin MixtureModel (x_train ?d) y0, FitEnd MixtureModel]"
    using c7 unfolding cell62_def by (rule fit_rest(3))
  have "history s =
       [FitBegin BaseModel (x_train ?d) y0, FitEnd BaseModel,
        FitBegin Gate0Model (x_train ?d) yg, FitEnd Gate0Model,
        FitBegin ArtificialModel xa ya, FitEnd ArtificialModel,
        FitBegin NaturalModel xn yn, FitEnd NaturalModel,
        FitBegin MixtureModel (x_train ?d) y0, FitEnd MixtureModel]"
    by (simp add: h7 h6 h5 h4 h3 h2 h1)
  with y0 yg a n show ?thesis by blast
qed

section \<open>Runs that complete\<close>

lemma create_weights:
  "weights (create K ns s) l = (if l \<in> set ns then initializer K l else weights s l)"
  unfolding create_def by (induction ns arbitrary: s) auto

lemma reload_empty:
  assumes "listing (disk s) d = []"
  shows "reload cfg m d s = Some s"
  using assms by (simp add: reload_def getNewestModel_def glob_star_def)

lemma fit_runs:
  assumes "collected s m = Some tw" and "length x = length y" and "length vx = length vy"
    and "0 < b" and "x \<noteq> []" and "vx \<noteq> []"
  shows "\<exists>s'. fit K m d x y b e (vx, vy) s = Some s' \<and>
           disk s' = checkpointer K m d b e x y (vx, vy) (weights s) (disk s) \<and>
           trainable s' = trainable s \<and>
           (\<forall>l. weights s' l =
              (if l \<in> set tw then optimizer K m b e x y (vx, vy) (weights s) l
               else weights s l))"
  using assms by (simp add: fit_def Let_def)

text \<open>
  The five cells of one training (compile, checkpoint directory, reload, fit, reload),
  with a library that leaves the disk alone and no checkpoint on disk: they run through,
  and the weights of the trainable layers of the model are what the optimiser computes.
\<close>

lemma train_runs:
  assumes quiet: "\<forall>d fs. makedirs K d fs = fs"
      "\<forall>m d b e x y v w fs. checkpointer K m d b e x y v w fs = fs"
    and empty: "\<forall>d. listing (disk s) d = []"
    and len: "length x = length y" "length vx = length vy"
    and pos: "0 < b" "x \<noteq> []" "vx \<noteq> []"
  shows "\<exists>s'. (reload cfg m d ((compile cfg m s)\<lparr>disk := makedirs K d (disk (compile cfg m s))\<rparr>)
           \<bind> (\<lambda>s. fit K m d x y b e (vx, vy) s \<bind> reload cfg m d)) = Some s' \<and>
         disk s' = disk s \<and> trainable s' = trainable s \<and>
         (\<forall>l. \<exists>x y v. weights s' l =
            (if l \<in> set (layers cfg m) \<and> trainable s l
             then optimizer K m b e x y v (weights s) l else weights s l))"
proof -
  let ?c = "compile cfg m s"
  have c: "?c\<lparr>disk := makedirs K d (disk ?c)\<rparr> = ?c"
    using quiet(1) by simp
  have dc: "disk ?c = disk s" and tc: "trainable ?c = trainable s"
    and wc: "weights ?c = weights s"
    by (simp_all add: compile_rest)
  have r1: "reload cfg m d ?c = Some ?c"
    using empty by (intro reload_empty) (simp add: dc)
  have col: "collected ?c m = Some (filter (trainable s) (layers cfg m))"
    by (simp add: compile_collected)
  from fit_runs[OF col len pos, of K d e] obtain s1 where
    f: "fit K m d x y b e (vx, vy) ?c = Some s1"
    and d1: "disk s1 = checkpointer K m d b e x y (vx, vy) (weights ?c) (disk ?c)"
    and t1: "trainable s1 = trainable ?c"
    and w1: "\<forall>l. weights s1 l =
              (if l \<in> set (filter (trainable s) (layers cfg m))
               then optimizer K m b e x y (vx, vy) (weights ?c) l else weights ?c l)"
    by blast
  have d1': "disk s1 = disk s"
    using d1 quiet(2) dc by simp
  have r2: "reload cfg m d s1 = Some s1"
    using empty by (intro reload_empty) (simp add: d1')
  have run: "(reload cfg m d ((compile cfg m s)\<lparr>disk := makedirs K d (disk (compile cfg m s))\<rparr>)
           \<bind> (\<lambda>s. fit K m d x y b e (vx, vy) s \<bind> reload cfg m d)) = Some s1"
    by (simp only: c r1 f r2 Option.bind.simps)
  have w: "\<forall>l. \<exists>x y v. weights s1 l =
            (if l \<in> set (layers cfg m) \<and> trainable s l
             then optimizer K m b e x y v (weights s) l else weights s l)"
  proof
    fix l
    have "weights s1 l =
            (if l \<in> set (layers cfg m) \<and> trainable s l
             then optimizer K m b e x y (vx, vy) (weights s) l else weights s l)"
      using w1[rule_format, of l] by (simp add: wc)
    then show "\<exists>x y v. weights s1 l =
            (if l \<in> set (layers cfg m) \<and> trainable s l
             then optimizer K m b e x y v (weights s) l else weights s l)"
      by blast
  qed
  show ?thesis
    using run d1' t1 tc w by auto
qed

lemma cells22_25_runs:
  assumes "\<forall>d fs. makedirs K d fs = fs"
      "\<forall>m d b e x y v w fs. checkpointer K m d b e x y v w fs = fs"
    and "\<forall>d. listing (disk s) d = []"
    and "length (x_train d) = length y0" "length (x_test d) = length yt0"
    and "0 < batch_size cfg" "x_train d \<noteq> []" "x_test d \<noteq> []"
  shows "\<exists>s'. cells22_25 K cfg d y0 yt0 s = Some s' \<and> disk s' = disk s \<and>
     trainable s' = trainable s \<and>
     (\<forall>l. \<exists>x y v. weights s' l =
        (if l \<in> set (layers cfg BaseModel) \<and> trainable s l
         then optimizer K BaseModel (batch_size cfg) (epochs cfg) x y v (weights s) l
         else weights s l))"
  unfolding cells22_25_def Let_def by (rule train_runs[OF assms])

lemma to_categorical_runs:
  assumes "list_all (\<lambda>v. v < n) y"
  shows "\<exists>c. to_categorical y n = Some c \<and> length c = length y"
  using assms by (simp add: to_categorical_def)

lemma cells27_31_runs:
  assumes q: "\<forall>d fs. makedirs K d fs = fs"
      "\<forall>m d b e x y v w fs. checkpointer K m d b e x y v w fs = fs"
    and e: "\<forall>d. listing (disk s) d = []"
    and len: "length (x_train d) = length (y_train d)" "length (x_test d) = length (y_test d)"
    and pos: "0 < batch_size cfg" "x_train d \<noteq> []" "x_test d \<noteq> []"
  shows "\<exists>s'. cells27_31 K cfg d s = Some s' \<and> disk s' = disk s \<and>
     trainable s' = trainable s \<and>
     (\<forall>l. \<exists>x y v. weights s' l =
        (if l \<in> set (layers cfg Gate0Model) \<and> trainable s l
         then optimizer K Gate0Model (batch_size cfg) (epochs cfg) x y v (weights s) l
         else weights s l))"
proof -
  have g: "list_all (\<lambda>v. v < 2) (G0_labels y)" for y
    by (auto simp: G0_labels_def list_all_iff)
  from to_categorical_runs[OF g] obtain ytr where
    ytr: "y_trainG0 (y_train d) = Some ytr" "length ytr = length (G0_labels (y_train d))"
    unfolding y_trainG0_def by blast
  from to_categorical_runs[OF g] obtain yte where
    yte: "y_testG0 (y_test d) = Some yte" "length yte = length (G0_labels (y_test d))"
    unfolding y_testG0_def by blast
  have l1: "length (x_train d) = length ytr" "length (x_test d) = length yte"
    using len ytr(2) yte(2) by (simp_all add: G0_labels_def)
  show ?thesis
    unfolding cells27_31_def Let_def using train_runs[OF q e l1 pos]
    by (simp only: ytr(1) yte(1) Option.bind.simps)
qed

lemma take_rows_runs:
  assumes "length x = length y"
  shows "\<exists>r. take_rows x (filter (\<lambda>i. P (y ! i)) [0..<length y]) = Some r \<and>
     length r = length (filter P y)"
proof -
  have "list_all (\<lambda>i. i < length x) (filter (\<lambda>i. P (y ! i)) [0..<length y])"
    using assms by (simp add: list_all_iff)
  moreover have "length (filter (\<lambda>i. P (y ! i)) [0..<length y]) = length (filter P y)"
    using rows_of_labels[of y P] by (metis length_map)
  ultimately show ?thesis
    by (simp add: take_rows_def)
qed

lemma filter_small:
  "list_all (\<lambda>v. v < n) y \<Longrightarrow> list_all (\<lambda>v. v < n) (filter P y)"
  by (simp add: list_all_iff)

lemma cells33_40_runs:
  assumes q: "\<forall>d fs. makedirs K d fs = fs"
      "\<forall>m d b e x y v w fs. checkpointer K m d b e x y v w fs = fs"
    and e: "\<forall>d. listing (disk s) d = []"
    and len: "length (x_train d) = length (y_train d)" "length (x_test d) = length (y_test d)"
    and lab: "list_all (\<lambda>v. v < orig_classes) (y_train d)"
      "list_all (\<lambda>v. v < orig_classes) (y_test d)"
    and pos: "0 < batch_size cfg"
      "filter (\<lambda>v. v \<in> set [0, 1, 8, 9]) (y_train d) \<noteq> []"
      "filter (\<lambda>v. v \<in> set [0, 1, 8, 9]) (y_test d) \<noteq> []"
  shows "\<exists>s'. cells33_40 K cfg d s = Some s' \<and> disk s' = disk s \<and>
     trainable s' = trainable s \<and>
     (\<forall>l. \<exists>x y v. weights s' l =
        (if l \<in> set (layers cfg ArtificialModel) \<and> trainable s l
         then optimizer K ArtificialModel (batch_size cfg) (epochs cfg) x y v (weights s) l
         else weights s l))"
proof -
  let ?P = "\<lambda>v. v \<in> set [0, 1, 8, 9 :: nat]"
  from take_rows_runs[OF len(1), of ?P] obtain xa where
    xa: "take_rows (x_train d) (artTrain (y_train d)) = Some xa"
      "length xa = length (filter ?P (y_train d))"
    unfolding artTrain_def by blast
  from take_rows_runs[OF len(2), of ?P] obtain xt where
    xt: "take_rows (x_test d) (artTest (y_test d)) = Some xt"
      "length xt = length (filter ?P (y_test d))"
    unfolding artTest_def by blast
  have la: "take_rows (y_train d) (artTrain (y_train d)) = Some (filter ?P (y_train d))"
    unfolding artTrain_def by (rule take_rows_labels)
  have lt: "take_rows (y_test d) (artTest (y_test d)) = Some (filter ?P (y_test d))"
    unfolding artTest_def by (rule take_rows_labels)
  from to_categorical_runs[OF filter_small[OF lab(1)]] obtain ya where
    ya: "to_categorical (filter ?P (y_train d)) orig_classes = Some ya"
      "length ya = length (filter ?P (y_train d))"
    by blast
  from to_categorical_runs[OF filter_small[OF lab(2)]] obtain yt where
    yt: "to_categorical (filter ?P (y_test d)) orig_classes = Some yt"
      "length yt = length (filter ?P (y_test d))"
    by blast
  have l: "length xa = length ya" "length xt = length yt"
    using xa(2) ya(2) xt(2) yt(2) by simp_all
  have ne: "xa \<noteq> []" "xt \<noteq> []"
    using pos(2,3) xa(2) xt(2) by auto
  show ?thesis
    unfolding cells33_40_def Let_def using train_runs[OF q e l pos(1) ne]
    by (simp only: xa(1) xt(1) la lt ya(1) yt(1) Option.bind.simps)
qed

lemma cells42_47_runs:
  assumes q: "\<forall>d fs. makedirs K d fs = fs"
      "\<forall>m d b e x y v w fs. checkpointer K m d b e x y v w fs = fs"
    and e: "\<forall>d. listing (disk s) d = []"
    and len: "length (x_train d) = length (y_train d)" "length (x_test d) = length (y_test d)"
    and lab: "list_all (\<lambda>v. v < orig_classes) (y_train d)"
      "list_all (\<lambda>v. v < orig_classes) (y_test d)"
    and pos: "0 < batch_size cfg"
      "filter (\<lambda>v. v \<in> set [2, 3, 4, 5, 6, 7]) (y_train d) \<noteq> []"
      "filter (\<lambda>v. v \<in> set [2, 3, 4, 5, 6, 7]) (y_test d) \<noteq> []"
  shows "\<exists>s'. cells42_47 K cfg d s = Some s' \<and> disk s' = disk s \<and>
     trainable s' = trainable s \<and>
     (\<forall>l. \<exists>x y v. weights s' l =
        (if l \<in> set (layers cfg NaturalModel) \<and> trainable s l
         then optimizer K NaturalModel (batch_size cfg) (epochs cfg) x y v (weights s) l
         else weights s l))"
proof -
  let ?P = "\<lambda>v. v \<in> set [2, 3, 4, 5, 6, 7 :: nat]"
  from take_rows_runs[OF len(1), of ?P] obtain xa where
    xa: "take_rows (x_train d) (natureTrain (y_train d)) = Some xa"
      "length xa = length (filter ?P (y_train d))"
    unfolding natureTrain_def by blast
  from take_rows_runs[OF len(2), of ?P] obtain xt where
    xt: "take_rows (x_test d) (natureTest (y_test d)) = Some xt"
      "length xt = length (filter ?P (y_test d))"
    unfolding natureTest_def by blast
  have la: "take_rows (y_train d) (natureTrain (y_train d)) = Some (filter ?P (y_train d))"
    unfolding natureTrain_def by (rule take_rows_labels)
  have lt: "take_rows (y_test d) (natureTest (y_test d)) = Some (filter ?P (y_test d))"
    unfolding natureTest_def by (rule take_rows_labels)
  from to_categorical_runs[OF filter_small[OF lab(1)]] obtain ya where
    ya: "to_categorical (filter ?P (y_train d)) orig_classes = Some ya"
      "length ya = length (filter ?P (y_train d))"
    by blast
  from to_categorical_runs[OF filter_small[OF lab(2)]] obtain yt where
    yt: "to_categorical (filter ?P (y_test d)) orig_classes = Some yt"
      "length yt = length (filter ?P (y_test d))"
    by blast
  have l: "length xa = length ya" "length xt = length yt"
    using xa(2) ya(2) xt(2) yt(2) by simp_all
  have ne: "xa \<noteq> []" "xt \<noteq> []"
    using pos(2,3) xa(2) xt(2) by auto
  show ?thesis
    unfolding cells42_47_def Let_def using train_runs[OF q e l pos(1) ne]
    by (simp only: xa(1) xt(1) la lt ya(1) yt(1) Option.bind.simps)
qed

text \<open>
  With a library that leaves the disk alone, no checkpoint on disk, as many images as
  labels, every label below 10, a positive batch size and at least one training and one
  test image of each of the two domains, the notebook runs to its end, through the states
  \<open>s2\<close> (baseline trained), \<open>s3\<close> (gate trained), \<open>s4\<close> and \<open>s5\<close> (experts
  trained), \<open>s6\<close> (mixture built, compiled and reloaded) and \<open>s7\<close> (mixture trained).
\<close>

lemma notebook_steps:
  assumes q: "\<forall>d fs. makedirs K d fs = fs"
      "\<forall>m d b e x y v w fs. checkpointer K m d b e x y v w fs = fs"
    and rm: "\<forall>d fs. rmtree K d fs = fs"
    and e: "\<forall>d. listing fs d = []"
    and len: "length (x_train (cells12_13 K cfg)) = length (y_train (cells12_13 K cfg))"
      "length (x_test (cells12_13 K cfg)) = length (y_test (cells12_13 K cfg))"
    and lab: "list_all (\<lambda>v. v < orig_classes) (y_train (cells12_13 K cfg))"
      "list_all (\<lambda>v. v < orig_classes) (y_test (cells12_13 K cfg))"
    and bs: "0 < batch_size cfg"
    and art: "filter (\<lambda>v. v \<in> set [0, 1, 8, 9]) (y_train (cells12_13 K cfg)) \<noteq> []"
      "filter (\<lambda>v. v \<in> set [0, 1, 8, 9]) (y_test (cells12_13 K cfg)) \<noteq> []"
    and nat: "filter (\<lambda>v. v \<in> set [2, 3, 4, 5, 6, 7]) (y_train (cells12_13 K cfg)) \<noteq> []"
      "filter (\<lambda>v. v \<in> set [2, 3, 4, 5, 6, 7]) (y_test (cells12_13 K cfg)) \<noteq> []"
  shows "\<exists>y0 yt0 s2 s3 s4 s5 s6 s7.
     to_categorical (y_train (cells12_13 K cfg)) orig_classes = Some y0 \<and>
     to_categorical (y_test (cells12_13 K cfg)) orig_classes = Some yt0 \<and>
     cells22_25 K cfg (cells12_13 K cfg) y0 yt0
       (cells16_19 K cfg (cell10 K (fresh_kernel fs))) = Some s2 \<and>
     cells27_31 K cfg (cells12_13 K cfg) s2 = Some s3 \<and>
     cells33_40 K cfg (cells12_13 K cfg) s3 = Some s4 \<and>
     cells42_47 K cfg (cells12_13 K cfg) s4 = Some s5 \<and>
     cell61 K cfg (cell59 cfg (cells54_58 K (cell51 cfg s5))) = Some s6 \<and>
     s6 = cell59 cfg (cells54_58 K (cell51 cfg s5)) \<and>
     cell62 K cfg (cells12_13 K cfg) y0 yt0 s6 = Some s7 \<and>
     notebook K cfg (fresh_kernel fs) = Some s7 \<and>
     trainable s5 = trainable (cells16_19 K cfg (cell10 K (fresh_kernel fs))) \<and>
     (\<forall>l. \<exists>x y v. weights s2 l =
        (if l \<in> set (layers cfg BaseModel) \<and>
            trainable (cells16_19 K cfg (cell10 K (fresh_kernel fs))) l
         then optimizer K BaseModel (batch_size cfg) (epochs cfg) x y v
                (weights (cells16_19 K cfg (cell10 K (fresh_kernel fs)))) l
         else weights (cells16_19 K cfg (cell10 K (fresh_kernel fs))) l)) \<and>
     (\<forall>l. \<exists>x y v. weights s3 l =
        (if l \<in> set (layers cfg Gate0Model) \<and> trainable s2 l
         then optimizer K Gate0Model (batch_size cfg) (epochs cfg) x y v (weights s2) l
         else weights s2 l)) \<and>
     (\<forall>l. \<exists>x y v. weights s4 l =
        (if l \<in> set (layers cfg ArtificialModel) \<and> trainable s3 l
         then optimizer K ArtificialModel (batch_size cfg) (epochs cfg) x y v (weights s3) l
         else weights s3 l)) \<and>
     (\<forall>l. \<exists>x y v. weights s5 l =
        (if l \<in> set (layers cfg NaturalModel) \<and> trainable s4 l
         then optimizer K NaturalModel (batch_size cfg) (epochs cfg) x y v (weights s4) l
         else weights s4 l)) \<and>
     (\<forall>l. \<exists>x y v. weights s7 l =
        (if l \<in> set (layers cfg MixtureModel) \<and> trainable s6 l
         then optimizer K MixtureModel (batch_size cfg) (epochs cfg) x y v (weights s6) l
         else weights s6 l))"
proof -
  let ?d = "cells12_13 K cfg"
  let ?s1 = "cells16_19 K cfg (cell10 K (fresh_kernel fs))"
  from to_categorical_runs[OF lab(1)] obtain y0 where
    y0: "to_categorical (y_train ?d) orig_classes = Some y0" "length y0 = length (y_train ?d)"
    by blast
  from to_categorical_runs[OF lab(2)] obtain yt0 where
    yt0: "to_categorical (y_test ?d) orig_classes = Some yt0" "length yt0 = length (y_test ?d)"
    by blast
  have ne: "x_train ?d \<noteq> []" "x_test ?d \<noteq> []"
    using art len by auto
  have d1: "disk ?s1 = fs"
    using rm by (simp add: cells16_19_def create_rest cell10_def fresh_kernel_def)
  have e1: "\<forall>d. listing (disk ?s1) d = []"
    using e d1 by simp
  have l0: "length (x_train ?d) = length y0" "length (x_test ?d) = length yt0"
    using len y0(2) yt0(2) by simp_all
  from cells22_25_runs[OF q e1 l0 bs ne] obtain s2 where
    c2: "cells22_25 K cfg ?d y0 yt0 ?s1 = Some s2" and d2: "disk s2 = disk ?s1"
    and t2: "trainable s2 = trainable ?s1"
    and w2: "\<forall>l. \<exists>x y v. weights s2 l =
        (if l \<in> set (layers cfg BaseModel) \<and> trainable ?s1 l
         then optimizer K BaseModel (batch_size cfg) (epochs cfg) x y v (weights ?s1) l
         else weights ?s1 l)"
    by blast
  have e2: "\<forall>d. listing (disk s2) d = []"
    using e1 d2 by simp
  from cells27_31_runs[OF q e2 len bs ne] obtain s3 where
    c3: "cells27_31 K cfg ?d s2 = Some s3" and d3: "disk s3 = disk s2"
    and t3: "trainable s3 = trainable s2"
    and w3: "\<forall>l. \<exists>x y v. weights s3 l =
        (if l \<in> set (layers cfg Gate0Model) \<and> trainable s2 l
         then optimizer K Gate0Model (batch_size cfg) (epochs cfg) x y v (weights s2) l
         else weights s2 l)"
    by blast
  have e3: "\<forall>d. listing (disk s3) d = []"
    using e2 d3 by simp
  from cells33_40_runs[OF q e3 len lab bs art] obtain s4 where
    c4: "cells33_40 K cfg ?d s3 = Some s4" and d4: "disk s4 = disk s3"
    and t4: "trainable s4 = trainable s3"
    and w4: "\<forall>l. \<exists>x y v. weights s4 l =
        (if l \<in> set (layers cfg ArtificialModel) \<and> trainable s3 l
         then optimizer K ArtificialModel (batch_size cfg) (epochs cfg) x y v (weights s3) l
         else weights s3 l)"
    by blast
  have e4: "\<forall>d. listing (disk s4) d = []"
    using e3 d4 by simp
  from cells42_47_runs[OF q e4 len lab bs nat] obtain s5 where
    c5: "cells42_47 K cfg ?d s4 = Some s5" and d5: "disk s5 = disk s4"
    and t5: "trainable s5 = trainable s4"
    and w5: "\<forall>l. \<exists>x y v. weights s5 l =
        (if l \<in> set (layers cfg NaturalModel) \<and> trainable s4 l
         then optimizer K NaturalModel (batch_size cfg) (epochs cfg) x y v (weights s4) l
         else weights s4 l)"
    by blast
  let ?s6 = "cell59 cfg (cells54_58 K (cell51 cfg s5))"
  have d6: "disk ?s6 = disk s5"
    by (simp add: cell59_def cells54_58_def cell51_def compile_rest create_rest freeze_rest)
  have e6: "\<forall>d. listing (disk ?s6) d = []"
    using e4 d5 d6 by simp
  have m6: "?s6\<lparr>disk := makedirs K ''./moe3Cifar10/'' (disk ?s6)\<rparr> = ?s6"
    using q(1) by simp
  have c6: "cell61 K cfg ?s6 = Some ?s6"
    unfolding cell61_def m6 using e6 by (intro reload_empty) simp
  have col: "collected ?s6 MixtureModel =
      Some (filter (trainable (cells54_58 K (cell51 cfg s5))) (layers cfg MixtureModel))"
    by (simp add: cell59_def compile_collected)
  have t6: "trainable ?s6 = trainable (cells54_58 K (cell51 cfg s5))"
    by (simp add: cell59_def compile_rest)
  from fit_runs[OF col l0 bs ne, of K "''./moe3Cifar10/''" "epochs cfg"] obtain s7 where
    c7: "cell62 K cfg ?d y0 yt0 ?s6 = Some s7"
    and w7': "\<forall>l. weights s7 l =
              (if l \<in> set (filter (trainable (cells54_58 K (cell51 cfg s5)))
                           (layers cfg MixtureModel))
               then optimizer K MixtureModel (batch_size cfg) (epochs cfg) (x_train ?d) y0
                      (x_test ?d, yt0) (weights ?s6) l
               else weights ?s6 l)"
    unfolding cell62_def by blast
  have w7: "\<forall>l. \<exists>x y v. weights s7 l =
        (if l \<in> set (layers cfg MixtureModel) \<and> trainable ?s6 l
         then optimizer K MixtureModel (batch_size cfg) (epochs cfg) x y v (weights ?s6) l
         else weights ?s6 l)"
  proof
    fix l
    have "weights s7 l =
        (if l \<in> set (layers cfg MixtureModel) \<and> trainable ?s6 l
         then optimizer K MixtureModel (batch_size cfg) (epochs cfg) (x_train ?d) y0
                (x_test ?d, yt0) (weights ?s6) l
         else weights ?s6 l)"
      using w7'[rule_format, of l] unfolding t6 in_filter .
    then show "\<exists>x y v. weights s7 l =
        (if l \<in> set (layers cfg MixtureModel) \<and> trainable ?s6 l
         then optimizer K MixtureModel (batch_size cfg) (epochs cfg) x y v (weights ?s6) l
         else weights ?s6 l)"
      by blast
  qed
  have run: "notebook K cfg (fresh_kernel fs) = Some s7"
    unfolding notebook_def Let_def
    by (simp only: y0(1) yt0(1) c2 c3 c4 c5 c6 c7 Option.bind.simps)
  have t: "trainable s5 = trainable ?s1"
    using t2 t3 t4 t5 by simp
  show ?thesis
    using y0(1) yt0(1) c2 c3 c4 c5 c6 c7 run t w2 w3 w4 w5 w7 by blast
qed

lemma notebook_runs:
  assumes "\<forall>d fs. makedirs K d fs = fs"
      "\<forall>m d b e x y v w fs. checkpointer K m d b e x y v w fs = fs"
    and "\<forall>d fs. rmtree K d fs = fs"
    and "\<forall>d. listing fs d = []"
    and "length (x_train (cells12_13 K cfg)) = length (y_train (cells12_13 K cfg))"
      "length (x_test (cells12_13 K cfg)) = length (y_test (cells12_13 K cfg))"
    and "list_all (\<lambda>v. v < orig_classes) (y_train (cells12_13 K cfg))"
      "list_all (\<lambda>v. v < orig_classes) (y_test (cells12_13 K cfg))"
    and "0 < batch_size cfg"
    and "filter (\<lambda>v. v \<in> set [0, 1, 8, 9]) (y_train (cells12_13 K cfg)) \<noteq> []"
      "filter (\<lambda>v. v \<in> set [0, 1, 8, 9]) (y_test (cells12_13 K cfg)) \<noteq> []"
    and "filter (\<lambda>v. v \<in> set [2, 3, 4, 5, 6, 7]) (y_train (cells12_13 K cfg)) \<noteq> []"
      "filter (\<lambda>v. v \<in> set [2, 3, 4, 5, 6, 7]) (y_test (cells12_13 K cfg)) \<noteq> []"
  shows "\<exists>s. notebook K cfg (fresh_kernel fs) = Some s"
  using notebook_steps[OF assms] by blast

text \<open>
  C6. In a run of the notebook that completes, \<open>fit\<close> is called five times: on the
  baseline, then on the level-1 gate, then on the artificial expert, then on the natural
  expert, and last on the mixture; each call starts after the call before it has returned.
\<close>

theorem training_order:
  assumes "notebook K cfg (fresh_kernel fs) = Some s"
  shows "\<exists>x1 y1 x2 y2 x3 y3 x4 y4 x5 y5.
     history s =
       [FitBegin BaseModel x1 y1, FitEnd BaseModel,
        FitBegin Gate0Model x2 y2, FitEnd Gate0Model,
        FitBegin ArtificialModel x3 y3, FitEnd ArtificialModel,
        FitBegin NaturalModel x4 y4, FitEnd NaturalModel,
        FitBegin MixtureModel x5 y5, FitEnd MixtureModel]"
  using notebook_history[OF assms] by blast

section \<open>What the experts are trained on\<close>

text \<open>
  C5. In a run of the notebook that completes, the artificial expert is fit once, on the
  training examples whose label is in {0, 1, 8, 9}, in their order, with the one-hot rows
  of these labels, and the natural expert once, on the training examples whose label is in
  {2, 3, 4, 5, 6, 7} with the one-hot rows of theirs; neither is fit on anything else.
\<close>

theorem experts_training_data:
  assumes "notebook K cfg (fresh_kernel fs) = Some s"
  shows "\<exists>ya yn.
     to_categorical (filter (\<lambda>v. v \<in> {0, 1, 8, 9}) (y_train (cells12_13 K cfg))) orig_classes
       = Some ya \<and>
     to_categorical (filter (\<lambda>v. v \<in> {2, 3, 4, 5, 6, 7}) (y_train (cells12_13 K cfg)))
       orig_classes = Some yn \<and>
     FitBegin ArtificialModel
       (map fst (filter (\<lambda>(x, v). v \<in> {0, 1, 8, 9})
          (zip (x_train (cells12_13 K cfg)) (y_train (cells12_13 K cfg))))) ya
       \<in> set (history s) \<and>
     FitBegin NaturalModel
       (map fst (filter (\<lambda>(x, v). v \<in> {2, 3, 4, 5, 6, 7})
          (zip (x_train (cells12_13 K cfg)) (y_train (cells12_13 K cfg))))) yn
       \<in> set (history s) \<and>
     (\<forall>x y. FitBegin ArtificialModel x y \<in> set (history s) \<longrightarrow>
        x = map fst (filter (\<lambda>(x, v). v \<in> {0, 1, 8, 9})
              (zip (x_train (cells12_13 K cfg)) (y_train (cells12_13 K cfg)))) \<and> y = ya) \<and>
     (\<forall>x y. FitBegin NaturalModel x y \<in> set (history s) \<longrightarrow>
        x = map fst (filter (\<lambda>(x, v). v \<in> {2, 3, 4, 5, 6, 7})
              (zip (x_train (cells12_13 K cfg)) (y_train (cells12_13 K cfg)))) \<and> y = yn)"
proof -
  let ?d = "cells12_13 K cfg"
  let ?A = "\<lambda>v. v \<in> set [0, 1, 8, 9 :: nat]"
  let ?N = "\<lambda>v. v \<in> set [2, 3, 4, 5, 6, 7 :: nat]"
  from notebook_history[OF assms] obtain y0 yg xa la ya xn ln yn where
    xa: "take_rows (x_train ?d) (artTrain (y_train ?d)) = Some xa"
    and la: "take_rows (y_train ?d) (artTrain (y_train ?d)) = Some la"
    and ya: "to_categorical la orig_classes = Some ya"
    and xn: "take_rows (x_train ?d) (natureTrain (y_train ?d)) = Some xn"
    and ln: "take_rows (y_train ?d) (natureTrain (y_train ?d)) = Some ln"
    and yn: "to_categorical ln orig_classes = Some yn"
    and h: "history s =
       [FitBegin BaseModel (x_train ?d) y0, FitEnd BaseModel,
        FitBegin Gate0Model (x_train ?d) yg, FitEnd Gate0Model,
        FitBegin ArtificialModel xa ya, FitEnd ArtificialModel,
        FitBegin NaturalModel xn yn, FitEnd NaturalModel,
        FitBegin MixtureModel (x_train ?d) y0, FitEnd MixtureModel]"
    by blast
  have xa': "xa = map fst (filter (\<lambda>(x, v). ?A v) (zip (x_train ?d) (y_train ?d)))"
    using xa unfolding artTrain_def by (rule take_rows_examples)
  have xn': "xn = map fst (filter (\<lambda>(x, v). ?N v) (zip (x_train ?d) (y_train ?d)))"
    using xn unfolding natureTrain_def by (rule take_rows_examples)
  have "take_rows (y_train ?d) (artTrain (y_train ?d)) = Some (filter ?A (y_train ?d))"
    unfolding artTrain_def by (rule take_rows_labels)
  with la have la': "la = filter ?A (y_train ?d)"
    by simp
  have "take_rows (y_train ?d) (natureTrain (y_train ?d)) = Some (filter ?N (y_train ?d))"
    unfolding natureTrain_def by (rule take_rows_labels)
  with ln have ln': "ln = filter ?N (y_train ?d)"
    by simp
  have sets: "set [0, 1, 8, 9 :: nat] = {0, 1, 8, 9}"
    "set [2, 3, 4, 5, 6, 7 :: nat] = {2, 3, 4, 5, 6, 7}"
    by simp_all
  show ?thesis
    using ya yn unfolding h xa' xn' la' ln' sets by simp
qed

section \<open>The claims about the run, on concrete runs\<close>

theorem training_order_witness:
  "\<exists>s. notebook
      \<lparr>load_data = (([10, 11, 12, 13 :: nat], [3, 0, 9, 5]), ([20, 21], [8, 2])),
       rescale = (\<lambda>x. x), rmtree = (\<lambda>d fs. fs), makedirs = (\<lambda>d fs. fs),
       initializer = (\<lambda>l. [0]), optimizer = (\<lambda>m b e x y v w l. [1]),
       checkpointer = (\<lambda>m d b e x y v w fs. fs)\<rparr>
      cell9
      (fresh_kernel \<lparr>listing = (\<lambda>d. []), getmtime = (\<lambda>p. 0), stored = (\<lambda>p. None)\<rparr>) = Some s \<and>
     (\<exists>x1 y1 x2 y2 x3 y3 x4 y4 x5 y5.
        history s =
          [FitBegin BaseModel x1 y1, FitEnd BaseModel,
           FitBegin Gate0Model x2 y2, FitEnd Gate0Model,
           FitBegin ArtificialModel x3 y3, FitEnd ArtificialModel,
           FitBegin NaturalModel x4 y4, FitEnd NaturalModel,
           FitBegin MixtureModel x5 y5, FitEnd MixtureModel])"
proof -
  let ?K = "\<lparr>load_data = (([10, 11, 12, 13 :: nat], [3, 0, 9, 5]), ([20, 21], [8, 2])),
       rescale = (\<lambda>x. x), rmtree = (\<lambda>d fs. fs), makedirs = (\<lambda>d fs. fs),
       initializer = (\<lambda>l. [0]), optimizer = (\<lambda>m b e x y v w l. [1]),
       checkpointer = (\<lambda>m d b e x y v w fs. fs)\<rparr>"
  let ?fs = "\<lparr>listing = (\<lambda>d. []), getmtime = (\<lambda>p. 0), stored = (\<lambda>p. None)\<rparr>"
  have "\<exists>s. notebook ?K cell9 (fresh_kernel ?fs) = Some s"
    by (rule notebook_runs) (simp_all add: cells12_13_def cell9_def orig_classes_def)
  then obtain s where run: "notebook ?K cell9 (fresh_kernel ?fs) = Some s"
    by blast
  from training_order[OF run] run show ?thesis
    by blast
qed

theorem experts_training_data_witness:
  "\<exists>s ya yn. notebook
      \<lparr>load_data = (([10, 11, 12, 13 :: nat], [3, 0, 9, 5]), ([20, 21], [8, 2])),
       rescale = (\<lambda>x. x), rmtree = (\<lambda>d fs. fs), makedirs = (\<lambda>d fs. fs),
       initializer = (\<lambda>l. [0]), optimizer = (\<lambda>m b e x y v w l. [1]),
       checkpointer = (\<lambda>m d b e x y v w fs. fs)\<rparr>
      cell9
      (fresh_kernel \<lparr>listing = (\<lambda>d. []), getmtime = (\<lambda>p. 0), stored = (\<lambda>p. None)\<rparr>) = Some s \<and>
     to_categorical [0, 9] orig_classes = Some ya \<and>
     to_categorical [3, 5] orig_classes = Some yn \<and>
     FitBegin ArtificialModel [11, 12] ya \<in> set (history s) \<and>
     FitBegin NaturalModel [10, 13] yn \<in> set (history s)"
proof -
  let ?K = "\<lparr>load_data = (([10, 11, 12, 13 :: nat], [3, 0, 9, 5]), ([20, 21], [8, 2])),
       rescale = (\<lambda>x. x), rmtree = (\<lambda>d fs. fs), makedirs = (\<lambda>d fs. fs),
       initializer = (\<lambda>l. [0]), optimizer = (\<lambda>m b e x y v w l. [1]),
       checkpointer = (\<lambda>m d b e x y v w fs. fs)\<rparr>"
  let ?fs = "\<lparr>listing = (\<lambda>d. []), getmtime = (\<lambda>p. 0), stored = (\<lambda>p. None)\<rparr>"
  have "\<exists>s. notebook ?K cell9 (fresh_kernel ?fs) = Some s"
    by (rule notebook_runs) (simp_all add: cells12_13_def cell9_def orig_classes_def)
  then obtain s where run: "notebook ?K cell9 (fresh_kernel ?fs) = Some s"
    by blast
  have d: "x_train (cells12_13 ?K cell9) = [10, 11, 12, 13]"
    "y_train (cells12_13 ?K cell9) = [3, 0, 9, 5]"
    by (simp_all add: cells12_13_def cell9_def)
  from experts_training_data[OF run] obtain ya yn where
    "to_categorical (filter (\<lambda>v. v \<in> {0, 1, 8, 9}) [3, 0, 9, 5]) orig_classes = Some ya"
    "to_categorical (filter (\<lambda>v. v \<in> {2, 3, 4, 5, 6, 7}) [3, 0, 9, 5]) orig_classes = Some yn"
    "FitBegin ArtificialModel
       (map fst (filter (\<lambda>(x, v). v \<in> {0, 1, 8, 9}) (zip [10, 11, 12, 13 :: nat] [3, 0, 9, 5 :: nat]))) ya
       \<in> set (history s)"
    "FitBegin NaturalModel
       (map fst (filter (\<lambda>(x, v). v \<in> {2, 3, 4, 5, 6, 7}) (zip [10, 11, 12, 13 :: nat] [3, 0, 9, 5 :: nat]))) yn
       \<in> set (history s)"
    unfolding d by blast
  then have "to_categorical [0, 9] orig_classes = Some ya \<and>
     to_categorical [3, 5] orig_classes = Some yn \<and>
     FitBegin ArtificialModel [11, 12] ya \<in> set (history s) \<and>
     FitBegin NaturalModel [10, 13] yn \<in> set (history s)"
    by simp
  with run show ?thesis
    by blast
qed

theorem frozen_submodels_witness:
  "let K = \<lparr>load_data = (([10, 11, 12, 13 :: nat], [3, 0, 9, 5]), ([20, 21], [8, 2])),
             rescale = (\<lambda>x. x), rmtree = (\<lambda>d fs. fs), makedirs = (\<lambda>d fs. fs),
             initializer = (\<lambda>l. [0]), optimizer = (\<lambda>m b e x y v w l. [1]),
             checkpointer = (\<lambda>m d b e x y v w fs. fs)\<rparr>;
       fs = \<lparr>listing = (\<lambda>d. []), getmtime = (\<lambda>p. 0), stored = (\<lambda>p. None)\<rparr>;
       d = cells12_13 K cell9
   in \<exists>y0 yt0 s2 s3 s4 s5 s6 s7.
        to_categorical (y_train d) orig_classes = Some y0 \<and>
        to_categorical (y_test d) orig_classes = Some yt0 \<and>
        cells22_25 K cell9 d y0 yt0 (cells16_19 K cell9 (cell10 K (fresh_kernel fs))) = Some s2 \<and>
        cells27_31 K cell9 d s2 = Some s3 \<and>
        cells33_40 K cell9 d s3 = Some s4 \<and>
        cells42_47 K cell9 d s4 = Some s5 \<and>
        ''base0'' \<in> set (layers cell9 BaseModel) \<and>
        trainable s5 ''base0'' \<and>
        \<not> trainable (cell51 cell9 s5) ''base0'' \<and>
        cell61 K cell9 (cell59 cell9 (cells54_58 K (cell51 cell9 s5))) = Some s6 \<and>
        cell62 K cell9 d y0 yt0 s6 = Some s7 \<and>
        notebook K cell9 (fresh_kernel fs) = Some s7 \<and>
        x_train d = [10, 11, 12, 13] \<and> x_test d = [20, 21] \<and>
        weights s6 ''base0'' = [1] \<and> weights s7 ''base0'' = [1] \<and>
        weights s6 ''artExpertGate1'' = [0] \<and> weights s7 ''artExpertGate1'' = [1]"
proof -
  let ?K = "\<lparr>load_data = (([10, 11, 12, 13 :: nat], [3, 0, 9, 5]), ([20, 21], [8, 2])),
       rescale = (\<lambda>x. x), rmtree = (\<lambda>d fs. fs), makedirs = (\<lambda>d fs. fs),
       initializer = (\<lambda>l. [0]), optimizer = (\<lambda>m b e x y v w l. [1]),
       checkpointer = (\<lambda>m d b e x y v w fs. fs)\<rparr>"
  let ?fs = "\<lparr>listing = (\<lambda>d. []), getmtime = (\<lambda>p. 0), stored = (\<lambda>p. None)\<rparr>"
  let ?d = "cells12_13 ?K cell9"
  let ?s1 = "cells16_19 ?K cell9 (cell10 ?K (fresh_kernel ?fs))"
  let ?four = "layers cell9 BaseModel @ layers cell9 Gate0Model @ layers cell9 ArtificialModel
                @ layers cell9 NaturalModel"
  let ?G = "subGate_layers ''artExpertGate'' @ subGate_layers ''natureExpertGate''
              @ [''lambda_1'']"
  have "\<exists>y0 yt0 s2 s3 s4 s5 s6 s7.
     to_categorical (y_train ?d) orig_classes = Some y0 \<and>
     to_categorical (y_test ?d) orig_classes = Some yt0 \<and>
     cells22_25 ?K cell9 ?d y0 yt0 ?s1 = Some s2 \<and>
     cells27_31 ?K cell9 ?d s2 = Some s3 \<and>
     cells33_40 ?K cell9 ?d s3 = Some s4 \<and>
     cells42_47 ?K cell9 ?d s4 = Some s5 \<and>
     cell61 ?K cell9 (cell59 cell9 (cells54_58 ?K (cell51 cell9 s5))) = Some s6 \<and>
     s6 = cell59 cell9 (cells54_58 ?K (cell51 cell9 s5)) \<and>
     cell62 ?K cell9 ?d y0 yt0 s6 = Some s7 \<and>
     notebook ?K cell9 (fresh_kernel ?fs) = Some s7 \<and>
     trainable s5 = trainable ?s1 \<and>
     (\<forall>l. \<exists>x y v. weights s2 l =
        (if l \<in> set (layers cell9 BaseModel) \<and> trainable ?s1 l
         then optimizer ?K BaseModel (batch_size cell9) (epochs cell9) x y v (weights ?s1) l
         else weights ?s1 l)) \<and>
     (\<forall>l. \<exists>x y v. weights s3 l =
        (if l \<in> set (layers cell9 Gate0Model) \<and> trainable s2 l
         then optimizer ?K Gate0Model (batch_size cell9) (epochs cell9) x y v (weights s2) l
         else weights s2 l)) \<and>
     (\<forall>l. \<exists>x y v. weights s4 l =
        (if l \<in> set (layers cell9 ArtificialModel) \<and> trainable s3 l
         then optimizer ?K ArtificialModel (batch_size cell9) (epochs cell9) x y v (weights s3) l
         else weights s3 l)) \<and>
     (\<forall>l. \<exists>x y v. weights s5 l =
        (if l \<in> set (layers cell9 NaturalModel) \<and> trainable s4 l
         then optimizer ?K NaturalModel (batch_size cell9) (epochs cell9) x y v (weights s4) l
         else weights s4 l)) \<and>
     (\<forall>l. \<exists>x y v. weights s7 l =
        (if l \<in> set (layers cell9 MixtureModel) \<and> trainable s6 l
         then optimizer ?K MixtureModel (batch_size cell9) (epochs cell9) x y v (weights s6) l
         else weights s6 l))"
    by (rule notebook_steps) (simp_all add: cells12_13_def cell9_def orig_classes_def)
  then obtain y0 yt0 s2 s3 s4 s5 s6 s7 where
    y0: "to_categorical (y_train ?d) orig_classes = Some y0"
    and yt0: "to_categorical (y_test ?d) orig_classes = Some yt0"
    and c2: "cells22_25 ?K cell9 ?d y0 yt0 ?s1 = Some s2"
    and c3: "cells27_31 ?K cell9 ?d s2 = Some s3"
    and c4: "cells33_40 ?K cell9 ?d s3 = Some s4"
    and c5: "cells42_47 ?K cell9 ?d s4 = Some s5"
    and c6: "cell61 ?K cell9 (cell59 cell9 (cells54_58 ?K (cell51 cell9 s5))) = Some s6"
    and s6: "s6 = cell59 cell9 (cells54_58 ?K (cell51 cell9 s5))"
    and c7: "cell62 ?K cell9 ?d y0 yt0 s6 = Some s7"
    and run: "notebook ?K cell9 (fresh_kernel ?fs) = Some s7"
    and t5: "trainable s5 = trainable ?s1"
    and w2: "\<forall>l. \<exists>x y v. weights s2 l =
        (if l \<in> set (layers cell9 BaseModel) \<and> trainable ?s1 l
         then optimizer ?K BaseModel (batch_size cell9) (epochs cell9) x y v (weights ?s1) l
         else weights ?s1 l)"
    and w3: "\<forall>l. \<exists>x y v. weights s3 l =
        (if l \<in> set (layers cell9 Gate0Model) \<and> trainable s2 l
         then optimizer ?K Gate0Model (batch_size cell9) (epochs cell9) x y v (weights s2) l
         else weights s2 l)"
    and w4: "\<forall>l. \<exists>x y v. weights s4 l =
        (if l \<in> set (layers cell9 ArtificialModel) \<and> trainable s3 l
         then optimizer ?K ArtificialModel (batch_size cell9) (epochs cell9) x y v (weights s3) l
         else weights s3 l)"
    and w5: "\<forall>l. \<exists>x y v. weights s5 l =
        (if l \<in> set (layers cell9 NaturalModel) \<and> trainable s4 l
         then optimizer ?K NaturalModel (batch_size cell9) (epochs cell9) x y v (weights s4) l
         else weights s4 l)"
    and w7: "\<forall>l. \<exists>x y v. weights s7 l =
        (if l \<in> set (layers cell9 MixtureModel) \<and> trainable s6 l
         then optimizer ?K MixtureModel (batch_size cell9) (epochs cell9) x y v (weights s6) l
         else weights s6 l)"
    by blast
  have b0: "''base0'' \<in> set (layers cell9 BaseModel)"
    by (simp add: base_layers_def simpleVGG_layers_def fatVGG_layers_def names12 names17)
  have g1: "''artExpertGate1'' \<in> set ?G"
    by (simp add: subGate_layers_def names5)
  have four: "''base0'' \<in> set ?four"
    using b0 by simp
  have nG: "''base0'' \<notin> set ?G"
    using disjoint_names[of cell9] four by blast
  have t1: "trainable ?s1 ''base0''"
    unfolding cells16_19_def create_trainable using b0 by auto
  have keep: "weights s' l = [1]"
    if "weights s l = [1]" and "\<exists>x y v. weights s' l =
        (if c then optimizer ?K m b e x y v (weights s) l else weights s l)"
    for s s' :: "nat state" and l c m b e
    using that by (auto split: if_splits)
  have b2: "weights s2 ''base0'' = [1]"
    using w2[rule_format, of "''base0''"] b0 t1 by auto
  have b3: "weights s3 ''base0'' = [1]"
    using keep[OF b2 w3[rule_format, of "''base0''"]] .
  have b4: "weights s4 ''base0'' = [1]"
    using keep[OF b3 w4[rule_format, of "''base0''"]] .
  have b5: "weights s5 ''base0'' = [1]"
    using keep[OF b4 w5[rule_format, of "''base0''"]] .
  have b6: "weights s6 ''base0'' = [1]"
    unfolding s6 cell59_def cells54_58_def cell51_def compile_rest create_weights freeze_rest
    using nG b5 by simp
  have a6: "weights s6 ''artExpertGate1'' = [0]"
    unfolding s6 cell59_def cells54_58_def compile_rest create_weights
    using g1 by simp
  have ta: "trainable s6 ''artExpertGate1''"
    unfolding s6 cell59_def cells54_58_def compile_rest create_trainable
    using g1 by simp
  have ma: "''artExpertGate1'' \<in> set (layers cell9 MixtureModel)"
    using g1 mixture_layers[of cell9] by blast
  have a7: "weights s7 ''artExpertGate1'' = [1]"
    using w7[rule_format, of "''artExpertGate1''"] ta ma by auto
  from frozen_submodels[of cell9 s5 ?K ?d y0 yt0] have
    fr1: "\<forall>l\<in>set ?four. \<not> trainable (cell51 cell9 s5) l"
    and fr: "\<forall>s4 s5'. cell61 ?K cell9 (cell59 cell9 (cells54_58 ?K (cell51 cell9 s5))) = Some s4 \<longrightarrow>
         cell62 ?K cell9 ?d y0 yt0 s4 = Some s5' \<longrightarrow>
         (\<forall>l\<in>set ?four. weights s5' l = weights s4 l \<and> \<not> trainable s5' l)"
    unfolding Let_def by blast+
  have nt: "\<not> trainable (cell51 cell9 s5) ''base0''"
    using fr1 four by blast
  have "weights s7 ''base0'' = weights s6 ''base0''"
    using fr c6 c7 four by blast
  then have b7: "weights s7 ''base0'' = [1]"
    using b6 by simp
  have tr5: "trainable s5 ''base0''"
    using t5 t1 by simp
  have dd: "x_train ?d = [10, 11, 12, 13]" "x_test ?d = [20, 21]"
    by (simp_all add: cells12_13_def cell9_def)
  show ?thesis
    unfolding Let_def
    using y0 yt0 c2 c3 c4 c5 b0 tr5 nt c6 c7 run dd b6 b7 a6 a7 by blast
qed

end
